theory Spec2Isabelle
  imports Main "HOL-Library.AList"
begin

section \<open>Python values\<close>

text \<open>
  The object model is dynamically typed: an attribute may hold the unset marker, None,
  a JSON value, a converted value or another object. One datatype of values covers them.
  \<^item> \<open>MISSING\<close> is the unset marker of \<open>attrs_utils\<close> / \<open>client.const\<close>;
  \<^item> \<open>PyDict\<close> is a dict as an association list (first binding of a key wins on lookup);
  \<^item> \<open>PyDatetime n\<close> is the datetime value numbered \<open>n\<close> (the codec below fixes the numbering);
  \<^item> \<open>PyEnum c i\<close> is the member of enum class \<open>c\<close> whose underlying integer is \<open>i\<close>;
  \<^item> \<open>PyClient n\<close> is a reference to client/session number \<open>n\<close>;
  \<^item> \<open>PyObj c cl ex as\<close> is an instance of class \<open>c\<close> with client reference \<open>cl\<close>
    (attribute \<open>_client\<close>), extra-data bag \<open>ex\<close> (attribute \<open>_extras\<close>) and the
    attributes \<open>as\<close>.
\<close>

datatype pyval =
    MISSING
  | PyNone
  | PyBool bool
  | PyInt int
  | PyStr string
  | PyList "pyval list"
  | PyDict "(string \<times> pyval) list"
  | PyDatetime nat
  | PyEnum string int
  | PyClient nat
  | PyObj string pyval "(string \<times> pyval) list" "(string \<times> pyval) list"

text \<open>
  Exceptions. \<open>AttributeError\<close>, \<open>TypeError\<close> and \<open>ValueError\<close> are Python's, with their
  message (apostrophes of the interpreter's messages left out); \<open>FormatError\<close> and
  \<open>UnknownVariant\<close> are the converter failures named in the specification;
  \<open>HTTPError\<close> is any failure raised by the transport.
\<close>

datatype error =
    AttributeError string
  | TypeError string
  | ValueError string
  | FormatError
  | UnknownVariant int
  | HTTPError string

text \<open>The error every guarded action method raises: \<open>AttributeError("HTTPClient not found!")\<close>.\<close>

definition MissingContext :: error where
  "MissingContext = AttributeError ''HTTPClient not found!''"

fun type_name :: "pyval \<Rightarrow> string" where
  "type_name MISSING = ''MISSING''"
| "type_name PyNone = ''NoneType''"
| "type_name (PyBool b) = ''bool''"
| "type_name (PyInt i) = ''int''"
| "type_name (PyStr s) = ''str''"
| "type_name (PyList xs) = ''list''"
| "type_name (PyDict d) = ''dict''"
| "type_name (PyDatetime t) = ''datetime''"
| "type_name (PyEnum c i) = c"
| "type_name (PyClient n) = ''Client''"
| "type_name (PyObj c cl ex as) = c"

definition no_attribute :: "pyval \<Rightarrow> string \<Rightarrow> error" where
  "no_attribute v n = AttributeError (type_name v @ '' object has no attribute '' @ n)"

text \<open>
  Truth value of a value, as \<open>not x\<close>, \<open>x or y\<close> and \<open>if x\<close> test it. The unset marker of
  \<open>attrs_utils\<close> is a class object and instances of the model classes define neither
  \<open>__bool__\<close> nor \<open>__len__\<close>, so both are true; an IntEnum member is an int.
\<close>

fun truthy :: "pyval \<Rightarrow> bool" where
  "truthy MISSING = True"
| "truthy PyNone = False"
| "truthy (PyBool b) = b"
| "truthy (PyInt i) = (i \<noteq> 0)"
| "truthy (PyStr s) = (s \<noteq> [])"
| "truthy (PyList xs) = (xs \<noteq> [])"
| "truthy (PyDict d) = (d \<noteq> [])"
| "truthy (PyDatetime t) = True"
| "truthy (PyEnum c i) = (i \<noteq> 0)"
| "truthy (PyClient n) = True"
| "truthy (PyObj c cl ex as) = True"

text \<open>
  Attribute read \<open>x.n\<close>: on an instance the named attribute, on an enum member its
  \<open>value\<close>; everything else the model reads from has no data attributes, and the read
  raises AttributeError as the interpreter does.
\<close>

fun getattr :: "pyval \<Rightarrow> string \<Rightarrow> error + pyval" where
  "getattr (PyObj c cl ex as) n =
     (if n = ''_client'' then Inr cl
      else if n = ''_extras'' then Inr (PyDict ex)
      else (case map_of as n of
              Some v \<Rightarrow> Inr v
            | None \<Rightarrow> Inl (no_attribute (PyObj c cl ex as) n)))"
| "getattr (PyEnum c i) n =
     (if n = ''value'' then Inr (PyInt i) else Inl (no_attribute (PyEnum c i) n))"
| "getattr v n = Inl (no_attribute v n)"

text \<open>\<open>getattr(x, n, d)\<close>: the attribute, or \<open>d\<close> when reading it raises AttributeError.\<close>

definition getattr_default :: "pyval \<Rightarrow> string \<Rightarrow> pyval \<Rightarrow> pyval" where
  "getattr_default x n d = (case getattr x n of Inr v \<Rightarrow> v | Inl e \<Rightarrow> d)"

text \<open>Attribute write \<open>x.n = v\<close> (\<open>setattr(x, n, v)\<close>) on an instance.\<close>

fun setattr :: "pyval \<Rightarrow> string \<Rightarrow> pyval \<Rightarrow> error + pyval" where
  "setattr (PyObj c cl ex as) n v =
     (if n = ''_client'' then Inr (PyObj c v ex as)
      else if n = ''_extras'' then
        (case v of PyDict d \<Rightarrow> Inr (PyObj c cl d as)
         | _ \<Rightarrow> Inl (TypeError ''_extras must be a dict''))
      else Inr (PyObj c cl ex (AList.update n v as)))"
| "setattr x n v = Inl (no_attribute x n)"

definition isinstance :: "pyval \<Rightarrow> string \<Rightarrow> bool" where
  "isinstance v c = (case v of PyObj c' cl ex as \<Rightarrow> c' = c | _ \<Rightarrow> False)"

text \<open>
  Library functions the model takes as given: \<open>datetime.fromisoformat\<close> and
  \<open>datetime.isoformat\<close> (\<open>parse_ts\<close>, \<open>format_ts\<close>) and the parsing of a numeric string by
  \<open>int(...)\<close> (\<open>parse_int\<close>).
\<close>

record codec =
  parse_ts :: "string \<Rightarrow> nat option"
  format_ts :: "nat \<Rightarrow> string"
  parse_int :: "string \<Rightarrow> int option"

text \<open>\<open>int(x)\<close>.\<close>

fun py_int :: "codec \<Rightarrow> pyval \<Rightarrow> error + int" where
  "py_int k (PyInt i) = Inr i"
| "py_int k (PyBool b) = Inr (if b then 1 else 0)"
| "py_int k (PyEnum c i) = Inr i"
| "py_int k (PyStr s) =
     (case parse_int k s of
        Some i \<Rightarrow> Inr i
      | None \<Rightarrow> Inl (ValueError ''invalid literal for int()''))"
| "py_int k v = Inl (TypeError ''int() argument must be a string or a number'')"

section \<open>Field descriptors and the serializable base\<close>

text \<open>
  The binding core (\<open>attrs_utils\<close>: \<open>define\<close>, \<open>field\<close>, \<open>DictSerializerMixin\<close>,
  \<open>ClientSerializerMixin\<close>; \<open>attr_converters\<close>; \<open>ClientObject\<close>) is imported by the three
  model files but is not among the sources. It is modelled from sections 3 and 4 of the
  specification; the schemas further down are read off the field declarations of the
  sources.
\<close>

text \<open>
  Modelled from the spec: the converters of section 4.1 and the field descriptor of
  sections 3 and 4.2. A descriptor is its logical name, its wire key, its converter, its
  default (\<open>None\<close> when the declaration gives none) and the flag that passes the client
  on to a nested object. \<open>Nested c fs\<close> converts a JSON object into an instance of the
  class \<open>c\<close> with the descriptors \<open>fs\<close>; \<open>ListOf\<close> converts the elements of a list;
  \<open>ConvertInt c\<close> is \<open>convert_int(c)\<close>, the integer read by \<open>int(...)\<close> as a member of
  the flag class \<open>c\<close>.
\<close>

datatype conv =
    Identity
  | Optional conv
  | Timestamp
  | Snowflake
  | ConvertInt string
  | EnumCoerce string "int list"
  | ListOf conv
  | Nested string "fdesc list"
and fdesc = Field string string conv "pyval option" bool

fun field_name :: "fdesc \<Rightarrow> string" where
  "field_name (Field n w c d ac) = n"

fun wire_key :: "fdesc \<Rightarrow> string" where
  "wire_key (Field n w c d ac) = w"

fun field_conv :: "fdesc \<Rightarrow> conv" where
  "field_conv (Field n w c d ac) = c"

text \<open>
  Modelled from the spec: \<open>enumCoerce(EnumType)\<close> of section 4.1 (the call
  \<open>EnumType(value)\<close>): the variant whose underlying integer is the raw integer, and
  \<open>UnknownVariant\<close> when the enum with the underlying integers \<open>known\<close> has none.
\<close>

fun enumCoerce :: "string \<Rightarrow> int list \<Rightarrow> pyval \<Rightarrow> error + pyval" where
  "enumCoerce c known (PyInt i) =
     (if i \<in> set known then Inr (PyEnum c i) else Inl (UnknownVariant i))"
| "enumCoerce c known (PyEnum c' i) =
     (if i \<in> set known then Inr (PyEnum c i) else Inl (UnknownVariant i))"
| "enumCoerce c known v = Inl FormatError"

text \<open>
  Modelled from the spec: \<open>fromJSON\<close> of section 4.3 with the client of section 4.4.
  \<open>apply_conv k cl c v\<close> applies the converter \<open>c\<close> to the raw value \<open>v\<close>; \<open>cl\<close> is the
  client reference a nested object built here receives.
  \<^item> \<open>optional\<close> passes null and the unset marker through unchanged;
  \<^item> \<open>timestamp\<close> and \<open>snowflake\<close> fail with \<open>FormatError\<close> on input they cannot read;
  \<^item> an enum field keeps the raw integer when the enum has no such variant
    (section 7, \<open>UnknownVariant\<close>: preserve the raw integer and continue);
  \<^item> \<open>from_fields\<close>, for every descriptor in schema order: the raw value under the wire
    key, converted; if the key is absent, the default; the attribute stays at the unset
    marker when the descriptor has no default (section 3: the marker is the default of
    an omitted constructor argument);
  \<^item> the keys of the raw object that no descriptor covers are kept in the extra-data bag.
\<close>

fun apply_conv :: "codec \<Rightarrow> pyval \<Rightarrow> conv \<Rightarrow> pyval \<Rightarrow> error + pyval"
and conv_list :: "codec \<Rightarrow> pyval \<Rightarrow> conv \<Rightarrow> pyval list \<Rightarrow> error + pyval list"
and from_fields :: "codec \<Rightarrow> pyval \<Rightarrow> fdesc list \<Rightarrow> (string \<times> pyval) list
                      \<Rightarrow> error + (string \<times> pyval) list" where
  "apply_conv k cl Identity v = Inr v"
| "apply_conv k cl (Optional c) v =
     (if v = PyNone \<or> v = MISSING then Inr v else apply_conv k cl c v)"
| "apply_conv k cl Timestamp v =
     (case v of
        PyStr s \<Rightarrow> (case parse_ts k s of Some t \<Rightarrow> Inr (PyDatetime t) | None \<Rightarrow> Inl FormatError)
      | _ \<Rightarrow> Inl FormatError)"
| "apply_conv k cl Snowflake v =
     (case v of
        PyInt i \<Rightarrow> Inr (PyInt i)
      | PyStr s \<Rightarrow> (case parse_int k s of Some i \<Rightarrow> Inr (PyInt i) | None \<Rightarrow> Inl FormatError)
      | _ \<Rightarrow> Inl FormatError)"
| "apply_conv k cl (ConvertInt c) v =
     (case py_int k v of Inl e \<Rightarrow> Inl FormatError | Inr i \<Rightarrow> Inr (PyEnum c i))"
| "apply_conv k cl (EnumCoerce c known) v =
     (case enumCoerce c known v of
        Inl (UnknownVariant i) \<Rightarrow> Inr (PyInt i)
      | r \<Rightarrow> r)"
| "apply_conv k cl (ListOf c) v =
     (case v of
        PyList vs \<Rightarrow> (case conv_list k cl c vs of Inl e \<Rightarrow> Inl e | Inr xs \<Rightarrow> Inr (PyList xs))
      | _ \<Rightarrow> Inl FormatError)"
| "apply_conv k cl (Nested c fs) v =
     (case v of
        PyDict raw \<Rightarrow>
          (case from_fields k cl fs raw of
             Inl e \<Rightarrow> Inl e
           | Inr as \<Rightarrow>
               Inr (PyObj c cl (filter (\<lambda>kv. fst kv \<notin> set (map wire_key fs)) raw) as))
      | _ \<Rightarrow> Inl FormatError)"
| "conv_list k cl c [] = Inr []"
| "conv_list k cl c (v # vs) =
     (case apply_conv k cl c v of
        Inl e \<Rightarrow> Inl e
      | Inr x \<Rightarrow> (case conv_list k cl c vs of Inl e \<Rightarrow> Inl e | Inr xs \<Rightarrow> Inr (x # xs)))"
| "from_fields k cl [] raw = Inr []"
| "from_fields k cl (Field n w c d ac # fs) raw =
     (case (case map_of raw w of
              None \<Rightarrow> Inr (case d of None \<Rightarrow> MISSING | Some dv \<Rightarrow> dv)
            | Some v \<Rightarrow> apply_conv k (if ac then cl else PyNone) c v) of
        Inl e \<Rightarrow> Inl e
      | Inr x \<Rightarrow>
          (case from_fields k cl fs raw of Inl e \<Rightarrow> Inl e | Inr rest \<Rightarrow> Inr ((n, x) # rest)))"

text \<open>
  The value \<open>from_fields\<close> gives the attribute of one descriptor: the converted raw
  value under the wire key, or the default.
\<close>

definition field_value ::
  "codec \<Rightarrow> pyval \<Rightarrow> fdesc \<Rightarrow> (string \<times> pyval) list \<Rightarrow> error + pyval" where
  "field_value k cl f raw =
     (case f of
        Field n w c d ac \<Rightarrow>
          (case map_of raw w of
             None \<Rightarrow> Inr (case d of None \<Rightarrow> MISSING | Some dv \<Rightarrow> dv)
           | Some v \<Rightarrow> apply_conv k (if ac then cl else PyNone) c v))"


text \<open>A schema: the class name and its descriptors in declaration order.\<close>

type_synonym schema = "string \<times> fdesc list"

definition fromJSON :: "codec \<Rightarrow> schema \<Rightarrow> (string \<times> pyval) list \<Rightarrow> pyval \<Rightarrow> error + pyval" where
  "fromJSON k s raw cl = apply_conv k cl (Nested (fst s) (snd s)) (PyDict raw)"







section \<open>Schemas of the domain objects\<close>

text \<open>
  Modelled from the spec: the class \<open>User\<close> (imported by member.py from \<open>.user\<close>, not
  among the sources), reduced to the three attributes member.py reads from it:
  \<open>id\<close>, \<open>username\<close> and \<open>avatar\<close>.
\<close>

definition User_fields :: "fdesc list" where
  "User_fields =
     [Field ''id'' ''id'' Snowflake None False,
      Field ''username'' ''username'' Identity None False,
      Field ''avatar'' ''avatar'' Identity (Some PyNone) False]"

text \<open>
  The field declarations of \<open>Member\<close> (member.py, lines 35 to 52), in order:
  \<open>field()\<close> declares no default; \<open>discord_name\<close> is the wire key; \<open>add_client\<close> passes
  the client on; \<open>converter=User\<close> builds the nested user; \<open>datetime.fromisoformat\<close> is
  the timestamp converter. The four attributes declared with a converter and the default
  None (\<open>user\<close>, \<open>premium_since\<close>, \<open>permissions\<close>, \<open>communication_disabled_until\<close>) are
  annotated \<open>Optional[...]\<close>: they hold None or a converted value, and their converter
  is the optional form, applied to a value that is not null, as invite.py writes it out
  with \<open>optional_c\<close>.
\<close>

definition Member_fields :: "fdesc list" where
  "Member_fields =
     [Field ''user'' ''user'' (Optional (Nested ''User'' User_fields)) (Some PyNone) True,
      Field ''nick'' ''nick'' Identity (Some PyNone) False,
      Field ''_avatar'' ''avatar'' Identity (Some PyNone) False,
      Field ''roles'' ''roles'' Identity None False,
      Field ''joined_at'' ''joined_at'' Timestamp None False,
      Field ''premium_since'' ''premium_since'' (Optional Timestamp) (Some PyNone) False,
      Field ''deaf'' ''deaf'' Identity None False,
      Field ''mute'' ''mute'' Identity None False,
      Field ''is_pending'' ''is_pending'' Identity (Some PyNone) False,
      Field ''pending'' ''pending'' Identity (Some PyNone) False,
      Field ''permissions'' ''permissions'' (Optional (ConvertInt ''Permissions''))
        (Some PyNone) False,
      Field ''communication_disabled_until'' ''communication_disabled_until''
        (Optional Timestamp) (Some PyNone) False,
      Field ''hoisted_role'' ''hoisted_role'' Identity (Some PyNone) False,
      Field ''flags'' ''flags'' Identity None False]"

definition Member_schema :: schema where
  "Member_schema = (''Member'', Member_fields)"

text \<open>
  \<open>Member(**kwargs, _client=client)\<close>: the keyword arguments are the raw mapping, the
  client is attached to the instance.
\<close>

definition Member_init :: "codec \<Rightarrow> (string \<times> pyval) list \<Rightarrow> pyval \<Rightarrow> error + pyval" where
  "Member_init k kwargs client = fromJSON k Member_schema kwargs client"

text \<open>
  Modelled from the spec: \<open>self.__slots__\<close> of a \<open>Member\<close>. The decorator \<open>define\<close> is
  not among the sources; the slot list it generates is the list of the declared
  attribute names (section 9: the instance's internal slot list).
\<close>

definition Member_slots :: "string list" where
  "Member_slots = map field_name Member_fields"

text \<open>
  The field declarations of \<open>Invite\<close> (invite.py, lines 28 to 76), in order. The
  constructor argument of a private attribute is its name without the underscore.
  \<open>optional_c\<close> is \<open>optional\<close>, \<open>timestamp_converter\<close> is \<open>timestamp\<close>, \<open>to_snowflake\<close> is
  \<open>snowflake\<close>; the enum \<open>InviteTargetTypes\<close> is not among the sources, the underlying
  integers of its variants are the parameter \<open>target_types\<close>.
\<close>

definition Invite_fields :: "int list \<Rightarrow> fdesc list" where
  "Invite_fields target_types =
     [Field ''code'' ''code'' Identity None False,
      Field ''uses'' ''uses'' Identity (Some (PyInt 0)) False,
      Field ''max_uses'' ''max_uses'' Identity (Some (PyInt 0)) False,
      Field ''max_age'' ''max_age'' Identity (Some (PyInt 0)) False,
      Field ''created_at'' ''created_at'' (Optional Timestamp) (Some MISSING) False,
      Field ''temporary'' ''temporary'' Identity (Some (PyBool False)) False,
      Field ''target_type'' ''target_type''
        (Optional (EnumCoerce ''InviteTargetTypes'' target_types)) (Some PyNone) False,
      Field ''approximate_presence_count'' ''approximate_presence_count'' Identity
        (Some MISSING) False,
      Field ''approximate_member_count'' ''approximate_member_count'' Identity
        (Some MISSING) False,
      Field ''scheduled_event'' ''scheduled_event'' (Optional Snowflake) (Some PyNone) False,
      Field ''expires_at'' ''expires_at'' (Optional Timestamp) (Some PyNone) False,
      Field ''stage_instance'' ''stage_instance'' Identity (Some PyNone) False,
      Field ''target_application'' ''target_application'' Identity (Some PyNone) False,
      Field ''guild_preview'' ''guild_preview'' Identity (Some MISSING) False,
      Field ''_channel_id'' ''channel_id'' Snowflake None False,
      Field ''_inviter_id'' ''inviter_id'' (Optional Snowflake) (Some PyNone) False,
      Field ''_target_user_id'' ''target_user_id'' (Optional Snowflake) (Some PyNone) False]"

definition Invite_schema :: "int list \<Rightarrow> schema" where
  "Invite_schema target_types = (''Invite'', Invite_fields target_types)"

definition Invite_init :: "codec \<Rightarrow> int list \<Rightarrow> (string \<times> pyval) list \<Rightarrow> pyval \<Rightarrow> error + pyval" where
  "Invite_init k target_types kwargs client = fromJSON k (Invite_schema target_types) kwargs client"

section \<open>The transport and the cache\<close>

text \<open>
  The transport methods the three model files call, with the arguments they pass. An
  argument converted by \<open>int(...)\<close> is an \<open>int\<close>; an argument passed through is a value.
\<close>

datatype request =
    create_guild_ban pyval int pyval pyval
  | create_guild_kick pyval int pyval
  | add_member_role pyval int pyval pyval
  | remove_member_role pyval int pyval pyval
  | create_dm int
  | create_message int pyval pyval
  | modify_member int pyval pyval pyval
  | add_member_to_thread int pyval
  | delete_invite pyval pyval

text \<open>
  The transport is an external collaborator: client number \<open>c\<close> answers a request with a
  parsed JSON value or raises, and moves the remote state \<open>'w\<close>. The state of the network
  carries the list of the calls made so far.
\<close>

type_synonym 'w http = "nat \<Rightarrow> request \<Rightarrow> 'w \<Rightarrow> (error + pyval) \<times> 'w"

record 'w net =
  world :: 'w
  calls :: "(nat \<times> request) list"

definition await :: "'w http \<Rightarrow> nat \<Rightarrow> request \<Rightarrow> 'w net \<Rightarrow> (error + pyval) \<times> 'w net" where
  "await h c r s =
     (case h c r (world s) of
        (res, w') \<Rightarrow> (res, \<lparr>world = w', calls = calls s @ [(c, r)]\<rparr>))"

text \<open>
  \<open>cl.m\<close> for a method or collaborator \<open>m\<close> of the client: the client number when \<open>cl\<close> is
  a client, and the interpreter's AttributeError otherwise (on None: NoneType object has
  no attribute m).
\<close>

definition client_attr :: "pyval \<Rightarrow> string \<Rightarrow> error + nat" where
  "client_attr cl m = (case cl of PyClient c \<Rightarrow> Inr c | _ \<Rightarrow> Inl (no_attribute cl m))"

text \<open>
  The cache of a client (\<open>self._client.cache\<close>) is a collaborator outside the sources.
  The properties of an invite call its two lookups \<open>get_channel\<close> and \<open>get_user\<close> with
  a stored identifier and return the answer as it comes. A lookup answers with a value,
  an entity or None (\<open>PyNone\<close>); which identifiers a cache answers with an entity is not
  fixed here, the two lookups are taken as they are given.
\<close>

record cache =
  get_channel :: "pyval \<Rightarrow> pyval"
  get_user :: "pyval \<Rightarrow> pyval"

text \<open>
  Constructors and helpers of classes that are not among the sources and that
  \<open>Member.send\<close> calls: \<open>_build_components\<close>, \<open>File._json_payload\<close>, \<open>Channel(**kwargs)\<close>
  and \<open>Message(**kwargs, _client=client)\<close>.
\<close>

record deps =
  build_components :: "pyval \<Rightarrow> error + pyval"
  json_payload :: "pyval \<Rightarrow> nat \<Rightarrow> error + pyval"
  Channel_init :: "pyval \<Rightarrow> error + pyval"
  Message_init :: "pyval \<Rightarrow> pyval \<Rightarrow> error + pyval"

section \<open>Member: computed properties\<close>

text \<open>
  \<^verbatim>\<open>return self.nick or (self.user.username if self.user else None)\<close>
  (member.py, property \<open>name\<close>).
\<close>

definition Member_name :: "pyval \<Rightarrow> error + pyval" where
  "Member_name self =
     (case getattr self ''nick'' of
        Inl e \<Rightarrow> Inl e
      | Inr nick \<Rightarrow>
          if truthy nick then Inr nick
          else (case getattr self ''user'' of
                  Inl e \<Rightarrow> Inl e
                | Inr user \<Rightarrow>
                    if truthy user then getattr user ''username'' else Inr PyNone))"

text \<open>
  \<^verbatim>\<open>return self._avatar or getattr(self.user, "avatar", None)\<close>
  (member.py, property \<open>avatar\<close>).
\<close>

definition Member_avatar :: "pyval \<Rightarrow> error + pyval" where
  "Member_avatar self =
     (case getattr self ''_avatar'' of
        Inl e \<Rightarrow> Inl e
      | Inr a \<Rightarrow>
          if truthy a then Inr a
          else (case getattr self ''user'' of
                  Inl e \<Rightarrow> Inl e
                | Inr user \<Rightarrow> Inr (getattr_default user ''avatar'' PyNone)))"

section \<open>Member: action methods\<close>

text \<open>\<open>int(self.user.id)\<close>.\<close>

definition user_id :: "codec \<Rightarrow> pyval \<Rightarrow> error + int" where
  "user_id k self =
     (case getattr self ''user'' of
        Inl e \<Rightarrow> Inl e
      | Inr user \<Rightarrow> (case getattr user ''id'' of Inl e \<Rightarrow> Inl e | Inr i \<Rightarrow> py_int k i))"

text \<open>
  \<^verbatim>\<open>await self._client.create_guild_ban(guild_id=guild_id, user_id=int(self.user.id),
      reason=reason, delete_message_days=delete_message_days)\<close>
  (member.py, lines 91 to 112; no check of the client precedes the call).
\<close>

definition Member_ban ::
  "codec \<Rightarrow> 'w http \<Rightarrow> pyval \<Rightarrow> pyval \<Rightarrow> pyval \<Rightarrow> pyval \<Rightarrow> 'w net \<Rightarrow> (error + pyval) \<times> 'w net" where
  "Member_ban k h self guild_id reason delete_message_days s =
     (case getattr self ''_client'' of
        Inl e \<Rightarrow> (Inl e, s)
      | Inr cl \<Rightarrow>
          (case client_attr cl ''create_guild_ban'' of
             Inl e \<Rightarrow> (Inl e, s)
           | Inr c \<Rightarrow>
               (case user_id k self of
                  Inl e \<Rightarrow> (Inl e, s)
                | Inr uid \<Rightarrow>
                    (case await h c (create_guild_ban guild_id uid reason delete_message_days) s of
                       (Inl e, s') \<Rightarrow> (Inl e, s')
                     | (Inr r, s') \<Rightarrow> (Inr PyNone, s')))))"

text \<open>
  \<^verbatim>\<open>if not self._client: raise AttributeError("HTTPClient not found!")\<close>
  followed by the call of \<open>create_guild_kick\<close> (member.py, lines 114 to 133).
\<close>

definition Member_kick ::
  "codec \<Rightarrow> 'w http \<Rightarrow> pyval \<Rightarrow> pyval \<Rightarrow> pyval \<Rightarrow> 'w net \<Rightarrow> (error + pyval) \<times> 'w net" where
  "Member_kick k h self guild_id reason s =
     (case getattr self ''_client'' of
        Inl e \<Rightarrow> (Inl e, s)
      | Inr cl \<Rightarrow>
          if \<not> truthy cl then (Inl MissingContext, s)
          else
            (case client_attr cl ''create_guild_kick'' of
               Inl e \<Rightarrow> (Inl e, s)
             | Inr c \<Rightarrow>
                 (case user_id k self of
                    Inl e \<Rightarrow> (Inl e, s)
                  | Inr uid \<Rightarrow>
                      (case await h c (create_guild_kick guild_id uid reason) s of
                         (Inl e, s') \<Rightarrow> (Inl e, s')
                       | (Inr r, s') \<Rightarrow> (Inr PyNone, s')))))"

text \<open>
  \<open>add_role\<close> and \<open>remove_role\<close> (member.py, lines 135 to 199): the role is a \<open>Role\<close>
  object, whose id is converted by \<open>int(...)\<close>, or the role id itself.
\<close>

definition role_id :: "codec \<Rightarrow> pyval \<Rightarrow> error + pyval" where
  "role_id k role =
     (if isinstance role ''Role'' then
        (case getattr role ''id'' of
           Inl e \<Rightarrow> Inl e
         | Inr i \<Rightarrow> (case py_int k i of Inl e \<Rightarrow> Inl e | Inr n \<Rightarrow> Inr (PyInt n)))
      else Inr role)"

definition Member_add_role ::
  "codec \<Rightarrow> 'w http \<Rightarrow> pyval \<Rightarrow> pyval \<Rightarrow> pyval \<Rightarrow> pyval \<Rightarrow> 'w net \<Rightarrow> (error + pyval) \<times> 'w net" where
  "Member_add_role k h self role guild_id reason s =
     (case getattr self ''_client'' of
        Inl e \<Rightarrow> (Inl e, s)
      | Inr cl \<Rightarrow>
          if \<not> truthy cl then (Inl MissingContext, s)
          else
            (case client_attr cl ''add_member_role'' of
               Inl e \<Rightarrow> (Inl e, s)
             | Inr c \<Rightarrow>
                 (case user_id k self of
                    Inl e \<Rightarrow> (Inl e, s)
                  | Inr uid \<Rightarrow>
                      (case role_id k role of
                         Inl e \<Rightarrow> (Inl e, s)
                       | Inr rid \<Rightarrow>
                           (case await h c (add_member_role guild_id uid rid reason) s of
                              (Inl e, s') \<Rightarrow> (Inl e, s')
                            | (Inr r, s') \<Rightarrow> (Inr PyNone, s'))))))"

definition Member_remove_role ::
  "codec \<Rightarrow> 'w http \<Rightarrow> pyval \<Rightarrow> pyval \<Rightarrow> pyval \<Rightarrow> pyval \<Rightarrow> 'w net \<Rightarrow> (error + pyval) \<times> 'w net" where
  "Member_remove_role k h self role guild_id reason s =
     (case getattr self ''_client'' of
        Inl e \<Rightarrow> (Inl e, s)
      | Inr cl \<Rightarrow>
          if \<not> truthy cl then (Inl MissingContext, s)
          else
            (case client_attr cl ''remove_member_role'' of
               Inl e \<Rightarrow> (Inl e, s)
             | Inr c \<Rightarrow>
                 (case user_id k self of
                    Inl e \<Rightarrow> (Inl e, s)
                  | Inr uid \<Rightarrow>
                      (case role_id k role of
                         Inl e \<Rightarrow> (Inl e, s)
                       | Inr rid \<Rightarrow>
                           (case await h c (remove_member_role guild_id uid rid reason) s of
                              (Inl e, s') \<Rightarrow> (Inl e, s')
                            | (Inr r, s') \<Rightarrow> (Inr PyNone, s'))))))"

text \<open>\<open>add_to_thread\<close> (member.py, lines 350 to 365).\<close>

definition Member_add_to_thread ::
  "codec \<Rightarrow> 'w http \<Rightarrow> pyval \<Rightarrow> pyval \<Rightarrow> 'w net \<Rightarrow> (error + pyval) \<times> 'w net" where
  "Member_add_to_thread k h self thread_id s =
     (case getattr self ''_client'' of
        Inl e \<Rightarrow> (Inl e, s)
      | Inr cl \<Rightarrow>
          if \<not> truthy cl then (Inl MissingContext, s)
          else
            (case client_attr cl ''add_member_to_thread'' of
               Inl e \<Rightarrow> (Inl e, s)
             | Inr c \<Rightarrow>
                 (case user_id k self of
                    Inl e \<Rightarrow> (Inl e, s)
                  | Inr uid \<Rightarrow>
                      (case await h c (add_member_to_thread uid thread_id) s of
                         (Inl e, s') \<Rightarrow> (Inl e, s')
                       | (Inr r, s') \<Rightarrow> (Inr PyNone, s')))))"

text \<open>A comprehension \<open>[f(x) for x in xs]\<close> whose body may raise.\<close>

fun map_result :: "('a \<Rightarrow> error + 'b) \<Rightarrow> 'a list \<Rightarrow> error + 'b list" where
  "map_result f [] = Inr []"
| "map_result f (x # xs) =
     (case f x of
        Inl e \<Rightarrow> Inl e
      | Inr y \<Rightarrow> (case map_result f xs of Inl e \<Rightarrow> Inl e | Inr ys \<Rightarrow> Inr (y # ys)))"

text \<open>
  \<open>send\<close> (member.py, lines 238 to 274), the values of the payload.
  \<^verbatim>\<open>_embeds = [] if not embeds or embeds is MISSING
      else ([embed._json for embed in embeds] if isinstance(embeds, list) else [embeds._json])\<close>
\<close>

definition send_embeds :: "pyval \<Rightarrow> error + pyval" where
  "send_embeds embeds =
     (if \<not> truthy embeds \<or> embeds = MISSING then Inr (PyList [])
      else (case embeds of
              PyList es \<Rightarrow>
                (case map_result (\<lambda>embed. getattr embed ''_json'') es of
                   Inl e \<Rightarrow> Inl e
                 | Inr js \<Rightarrow> Inr (PyList js))
            | _ \<Rightarrow>
                (case getattr embeds ''_json'' of
                   Inl e \<Rightarrow> Inl e
                 | Inr j \<Rightarrow> Inr (PyList [j]))))"

text \<open>
  \<^verbatim>\<open>if not components or components is MISSING: _components = []
  else: _components = _build_components(components=components)\<close>
\<close>

definition send_components :: "deps \<Rightarrow> pyval \<Rightarrow> error + pyval" where
  "send_components d components =
     (if \<not> truthy components \<or> components = MISSING then Inr (PyList [])
      else build_components d components)"

text \<open>
  \<^verbatim>\<open>if not files or files is MISSING: _files = []
  elif isinstance(files, list): _files = [file._json_payload(id) for id, file in enumerate(files)]
  else: _files = [files._json_payload(0)]; files = [files]\<close>
  The result is \<open>_files\<close> and the value \<open>files\<close> has afterwards.
\<close>

definition send_files :: "deps \<Rightarrow> pyval \<Rightarrow> error + pyval \<times> pyval" where
  "send_files d files =
     (if \<not> truthy files \<or> files = MISSING then Inr (PyList [], files)
      else (case files of
              PyList fs \<Rightarrow>
                (case map_result (\<lambda>(i, file). json_payload d file i) (enumerate 0 fs) of
                   Inl e \<Rightarrow> Inl e
                 | Inr js \<Rightarrow> Inr (PyList js, files))
            | _ \<Rightarrow>
                (case json_payload d files 0 of
                   Inl e \<Rightarrow> Inl e
                 | Inr j \<Rightarrow> Inr (PyList [j], PyList [files]))))"

text \<open>
  The payload \<open>dict(content=_content, tts=_tts, attachments=_files, embeds=_embeds,
  components=_components, allowed_mentions=_allowed_mentions)\<close>, with \<open>files\<close>.
\<close>

definition send_payload ::
  "deps \<Rightarrow> pyval \<Rightarrow> pyval \<Rightarrow> pyval \<Rightarrow> pyval \<Rightarrow> pyval \<Rightarrow> pyval
     \<Rightarrow> error + (string \<times> pyval) list \<times> pyval" where
  "send_payload d content components tts files embeds allowed_mentions =
     (let content' = (if content = MISSING then PyStr [] else content);
          tts' = (if tts = MISSING then PyBool False else tts)
      in case send_embeds embeds of
           Inl e \<Rightarrow> Inl e
         | Inr embeds' \<Rightarrow>
             (let allowed_mentions' =
                    (if allowed_mentions = MISSING then PyDict [] else allowed_mentions)
              in case send_components d components of
                   Inl e \<Rightarrow> Inl e
                 | Inr components' \<Rightarrow>
                     (case send_files d files of
                        Inl e \<Rightarrow> Inl e
                      | Inr (files', files_arg) \<Rightarrow>
                          Inr ([(''content'', content'),
                                (''tts'', tts'),
                                (''attachments'', files'),
                                (''embeds'', embeds'),
                                (''components'', components'),
                                (''allowed_mentions'', allowed_mentions')],
                               files_arg))))"

text \<open>
  \<^verbatim>\<open>channel = Channel(**await self._client.create_dm(recipient_id=int(self.user.id)))
  res = await self._client.create_message(channel_id=int(channel.id), payload=payload, files=files)
  return Message(**res, _client=self._client)\<close>
\<close>

definition Member_send ::
  "codec \<Rightarrow> deps \<Rightarrow> 'w http \<Rightarrow> pyval \<Rightarrow> pyval \<Rightarrow> pyval \<Rightarrow> pyval \<Rightarrow> pyval \<Rightarrow> pyval \<Rightarrow> pyval
     \<Rightarrow> 'w net \<Rightarrow> (error + pyval) \<times> 'w net" where
  "Member_send k d h self content components tts files embeds allowed_mentions s =
     (case getattr self ''_client'' of
        Inl e \<Rightarrow> (Inl e, s)
      | Inr cl \<Rightarrow>
          if \<not> truthy cl then (Inl MissingContext, s)
          else
            (case send_payload d content components tts files embeds allowed_mentions of
               Inl e \<Rightarrow> (Inl e, s)
             | Inr (payload, files_arg) \<Rightarrow>
                 (case client_attr cl ''create_dm'' of
                    Inl e \<Rightarrow> (Inl e, s)
                  | Inr c \<Rightarrow>
                      (case user_id k self of
                         Inl e \<Rightarrow> (Inl e, s)
                       | Inr uid \<Rightarrow>
                           (case await h c (create_dm uid) s of
                              (Inl e, s1) \<Rightarrow> (Inl e, s1)
                            | (Inr dm, s1) \<Rightarrow>
                                (case Channel_init d dm of
                                   Inl e \<Rightarrow> (Inl e, s1)
                                 | Inr channel \<Rightarrow>
                                     (case client_attr cl ''create_message'' of
                                        Inl e \<Rightarrow> (Inl e, s1)
                                      | Inr c' \<Rightarrow>
                                          (case getattr channel ''id'' of
                                             Inl e \<Rightarrow> (Inl e, s1)
                                           | Inr ci \<Rightarrow>
                                               (case py_int k ci of
                                                  Inl e \<Rightarrow> (Inl e, s1)
                                                | Inr cid \<Rightarrow>
                                                    (case await h c'
                                                            (create_message cid (PyDict payload) files_arg) s1 of
                                                       (Inl e, s2) \<Rightarrow> (Inl e, s2)
                                                     | (Inr res, s2) \<Rightarrow>
                                                         (Message_init d res cl, s2)))))))))))"

text \<open>
  \<open>modify\<close> (member.py, lines 316 to 348). The payload starts empty and receives a key
  for every parameter that is not the unset marker, in the order of the source.
\<close>

definition modify_payload ::
  "pyval \<Rightarrow> pyval \<Rightarrow> pyval \<Rightarrow> pyval \<Rightarrow> pyval \<Rightarrow> pyval \<Rightarrow> (string \<times> pyval) list" where
  "modify_payload nick roles mute deaf channel_id communication_disabled_until =
     (let p0 = [];
          p1 = (if nick \<noteq> MISSING then AList.update ''nick'' nick p0 else p0);
          p2 = (if roles \<noteq> MISSING then AList.update ''roles'' roles p1 else p1);
          p3 = (if channel_id \<noteq> MISSING then AList.update ''channel_id'' channel_id p2 else p2);
          p4 = (if mute \<noteq> MISSING then AList.update ''mute'' mute p3 else p3);
          p5 = (if deaf \<noteq> MISSING then AList.update ''deaf'' deaf p4 else p4);
          p6 = (if communication_disabled_until \<noteq> MISSING
                then AList.update ''communication_disabled_until'' communication_disabled_until p5
                else p5)
      in p6)"

text \<open>
  \<open>**res, _client=client\<close>: the response must be a mapping, and may not carry the keyword
  \<open>_client\<close> itself.
\<close>

definition kwargs_with_client :: "pyval \<Rightarrow> error + (string \<times> pyval) list" where
  "kwargs_with_client res =
     (case res of
        PyDict d \<Rightarrow>
          if ''_client'' \<in> set (map fst d)
          then Inl (TypeError ''got multiple values for keyword argument _client'')
          else Inr d
      | _ \<Rightarrow> Inl (TypeError ''argument after ** must be a mapping''))"

text \<open>
  \<^verbatim>\<open>for attr in self.__slots__: setattr(self, attr, getattr(member, attr))\<close>
  The result is the outcome of the loop and the instance as the loop leaves it.
\<close>

fun copy_slots :: "string list \<Rightarrow> pyval \<Rightarrow> pyval \<Rightarrow> (error + unit) \<times> pyval" where
  "copy_slots [] member self = (Inr (), self)"
| "copy_slots (a # as) member self =
     (case getattr member a of
        Inl e \<Rightarrow> (Inl e, self)
      | Inr v \<Rightarrow>
          (case setattr self a v of
             Inl e \<Rightarrow> (Inl e, self)
           | Inr self' \<Rightarrow> copy_slots as member self'))"

text \<open>The result of \<open>modify\<close>: what the call returns or raises, the instance, the network.\<close>

definition Member_modify ::
  "codec \<Rightarrow> 'w http \<Rightarrow> pyval \<Rightarrow> pyval \<Rightarrow> pyval \<Rightarrow> pyval \<Rightarrow> pyval \<Rightarrow> pyval \<Rightarrow> pyval \<Rightarrow> pyval
     \<Rightarrow> pyval \<Rightarrow> 'w net \<Rightarrow> (error + pyval) \<times> pyval \<times> 'w net" where
  "Member_modify k h self guild_id nick roles mute deaf channel_id communication_disabled_until
       reason s =
     (case getattr self ''_client'' of
        Inl e \<Rightarrow> (Inl e, self, s)
      | Inr cl \<Rightarrow>
          if \<not> truthy cl then (Inl MissingContext, self, s)
          else
            (let payload =
                   modify_payload nick roles mute deaf channel_id communication_disabled_until
             in case client_attr cl ''modify_member'' of
                  Inl e \<Rightarrow> (Inl e, self, s)
                | Inr c \<Rightarrow>
                    (case user_id k self of
                       Inl e \<Rightarrow> (Inl e, self, s)
                     | Inr uid \<Rightarrow>
                         (case await h c (modify_member uid guild_id (PyDict payload) reason) s of
                            (Inl e, s') \<Rightarrow> (Inl e, self, s')
                          | (Inr res, s') \<Rightarrow>
                              (case kwargs_with_client res of
                                 Inl e \<Rightarrow> (Inl e, self, s')
                               | Inr kwargs \<Rightarrow>
                                   (case Member_init k kwargs cl of
                                      Inl e \<Rightarrow> (Inl e, self, s')
                                    | Inr member \<Rightarrow>
                                        (case copy_slots Member_slots member self of
                                           (Inl e, self') \<Rightarrow> (Inl e, self', s')
                                         | (Inr u, self') \<Rightarrow> (Inr member, self', s'))))))))"

section \<open>Invite\<close>

text \<open>
  \<^verbatim>\<open>return self._client.cache.get_channel(self._channel_id)\<close>
  (invite.py, property \<open>channel\<close>). \<open>caches c\<close> is the cache of client number \<open>c\<close>.
\<close>

definition Invite_channel :: "(nat \<Rightarrow> cache) \<Rightarrow> pyval \<Rightarrow> error + pyval" where
  "Invite_channel caches self =
     (case getattr self ''_client'' of
        Inl e \<Rightarrow> Inl e
      | Inr cl \<Rightarrow>
          (case client_attr cl ''cache'' of
             Inl e \<Rightarrow> Inl e
           | Inr c \<Rightarrow>
               (case getattr self ''_channel_id'' of
                  Inl e \<Rightarrow> Inl e
                | Inr ident \<Rightarrow> Inr (get_channel (caches c) ident))))"

text \<open>
  \<^verbatim>\<open>return self._client.cache.get_user(self._inviter_id) if self._inviter_id else None\<close>
  (invite.py, property \<open>inviter\<close>; \<open>target_user\<close> is the same over \<open>_target_user_id\<close>).
\<close>

definition cached_user :: "(nat \<Rightarrow> cache) \<Rightarrow> pyval \<Rightarrow> string \<Rightarrow> error + pyval" where
  "cached_user caches self attr =
     (case getattr self attr of
        Inl e \<Rightarrow> Inl e
      | Inr ident \<Rightarrow>
          if truthy ident then
            (case getattr self ''_client'' of
               Inl e \<Rightarrow> Inl e
             | Inr cl \<Rightarrow>
                 (case client_attr cl ''cache'' of
                    Inl e \<Rightarrow> Inl e
                  | Inr c \<Rightarrow>
                      (case getattr self attr of
                         Inl e \<Rightarrow> Inl e
                       | Inr ident' \<Rightarrow> Inr (get_user (caches c) ident'))))
          else Inr PyNone)"

definition Invite_inviter :: "(nat \<Rightarrow> cache) \<Rightarrow> pyval \<Rightarrow> error + pyval" where
  "Invite_inviter caches self = cached_user caches self ''_inviter_id''"

definition Invite_target_user :: "(nat \<Rightarrow> cache) \<Rightarrow> pyval \<Rightarrow> error + pyval" where
  "Invite_target_user caches self = cached_user caches self ''_target_user_id''"

text \<open>
  \<^verbatim>\<open>await self._client.http.delete_invite(self.code, reason=reason)\<close>
  (invite.py, lines 127 to 141; no check of the client precedes the call).
\<close>

definition Invite_delete :: "'w http \<Rightarrow> pyval \<Rightarrow> pyval \<Rightarrow> 'w net \<Rightarrow> (error + pyval) \<times> 'w net" where
  "Invite_delete h self reason s =
     (case getattr self ''_client'' of
        Inl e \<Rightarrow> (Inl e, s)
      | Inr cl \<Rightarrow>
          (case client_attr cl ''http'' of
             Inl e \<Rightarrow> (Inl e, s)
           | Inr c \<Rightarrow>
               (case getattr self ''code'' of
                  Inl e \<Rightarrow> (Inl e, s)
                | Inr code \<Rightarrow>
                    (case await h c (delete_invite code reason) s of
                       (Inl e, s') \<Rightarrow> (Inl e, s')
                     | (Inr r, s') \<Rightarrow> (Inr PyNone, s')))))"

section \<open>Components\<close>

text \<open>
  The enum \<open>ComponentType\<close> is imported from \<open>..enums\<close>, which is not among the sources.
  The underlying integers of \<open>BUTTON\<close> and \<open>SELECT\<close> are those of the docstrings of
  component.py (always 2, always 3).
\<close>

definition ComponentType_BUTTON :: pyval where
  "ComponentType_BUTTON = PyEnum ''ComponentType'' 2"

definition ComponentType_SELECT :: pyval where
  "ComponentType_SELECT = PyEnum ''ComponentType'' 3"

text \<open>The \<open>__slots__\<close> of the classes of component.py.\<close>

definition SelectMenu_slots :: "string list" where
  "SelectMenu_slots =
     [''_json'', ''type'', ''custom_id'', ''placeholder'', ''min_values'', ''max_values'',
      ''disabled'']"

definition Button_slots :: "string list" where
  "Button_slots =
     [''_json'', ''type'', ''style'', ''label'', ''emoji'', ''custom_id'', ''url'', ''disabled'']"

definition Component_slots :: "string list" where
  "Component_slots =
     [''_json'', ''type'', ''custom_id'', ''disabled'', ''style'', ''label'', ''emoji'', ''url'',
      ''options'', ''placeholder'', ''min_values'', ''max_values'', ''components'']"

definition ActionRow_slots :: "string list" where
  "ActionRow_slots = [''_json'', ''type'', ''components'']"

text \<open>
  Modelled from the spec: \<open>DictSerializerMixin.__init__(**kwargs)\<close> (imported from
  \<open>..api.models.misc\<close>, not among the sources), the serializable base of section 4.3 for a
  class that declares its attributes as slots: every slot but \<open>_json\<close> is a field under
  its own name, with the identity converter and no default; the keyword arguments are
  kept as \<open>_json\<close>.
\<close>

definition slot_fields :: "string list \<Rightarrow> fdesc list" where
  "slot_fields slots =
     map (\<lambda>n. Field n n Identity None False) (filter (\<lambda>n. n \<noteq> ''_json'') slots)"

definition DictSerializerMixin_init ::
  "codec \<Rightarrow> string \<Rightarrow> string list \<Rightarrow> (string \<times> pyval) list \<Rightarrow> error + pyval" where
  "DictSerializerMixin_init k cls slots kwargs =
     (case fromJSON k (cls, slot_fields slots) kwargs PyNone of
        Inl e \<Rightarrow> Inl e
      | Inr self \<Rightarrow> setattr self ''_json'' (PyDict kwargs))"

text \<open>\<open>d.update({...})\<close> on the dict an attribute holds.\<close>

definition dict_update :: "pyval \<Rightarrow> (string \<times> pyval) list \<Rightarrow> error + pyval" where
  "dict_update d kvs =
     (case d of
        PyDict xs \<Rightarrow> Inr (PyDict (fold (\<lambda>kv. AList.update (fst kv) (snd kv)) kvs xs))
      | _ \<Rightarrow> Inl (no_attribute d ''update''))"

text \<open>
  \<^verbatim>\<open>super().__init__(**kwargs)
  self.type = ComponentType.SELECT
  self._json.update({"type": self.type.value})\<close>
  (component.py, \<open>SelectMenu.__init__\<close>).
\<close>

definition SelectMenu_init :: "codec \<Rightarrow> (string \<times> pyval) list \<Rightarrow> error + pyval" where
  "SelectMenu_init k kwargs =
     (case DictSerializerMixin_init k ''SelectMenu'' SelectMenu_slots kwargs of
        Inl e \<Rightarrow> Inl e
      | Inr self0 \<Rightarrow>
          (case setattr self0 ''type'' ComponentType_SELECT of
             Inl e \<Rightarrow> Inl e
           | Inr self1 \<Rightarrow>
               (case getattr self1 ''_json'' of
                  Inl e \<Rightarrow> Inl e
                | Inr j \<Rightarrow>
                    (case getattr self1 ''type'' of
                       Inl e \<Rightarrow> Inl e
                     | Inr t \<Rightarrow>
                         (case getattr t ''value'' of
                            Inl e \<Rightarrow> Inl e
                          | Inr tv \<Rightarrow>
                              (case dict_update j [(''type'', tv)] of
                                 Inl e \<Rightarrow> Inl e
                               | Inr j' \<Rightarrow> setattr self1 ''_json'' j'))))))"

text \<open>
  \<^verbatim>\<open>super().__init__(**kwargs)
  self.type = ComponentType.BUTTON
  self._json.update({"type": self.type.value, "style": self.style.value})\<close>
  (component.py, \<open>Button.__init__\<close>).
\<close>

definition Button_init :: "codec \<Rightarrow> (string \<times> pyval) list \<Rightarrow> error + pyval" where
  "Button_init k kwargs =
     (case DictSerializerMixin_init k ''Button'' Button_slots kwargs of
        Inl e \<Rightarrow> Inl e
      | Inr self0 \<Rightarrow>
          (case setattr self0 ''type'' ComponentType_BUTTON of
             Inl e \<Rightarrow> Inl e
           | Inr self1 \<Rightarrow>
               (case getattr self1 ''_json'' of
                  Inl e \<Rightarrow> Inl e
                | Inr j \<Rightarrow>
                    (case getattr self1 ''type'' of
                       Inl e \<Rightarrow> Inl e
                     | Inr t \<Rightarrow>
                         (case getattr t ''value'' of
                            Inl e \<Rightarrow> Inl e
                          | Inr tv \<Rightarrow>
                              (case getattr self1 ''style'' of
                                 Inl e \<Rightarrow> Inl e
                               | Inr st \<Rightarrow>
                                   (case getattr st ''value'' of
                                      Inl e \<Rightarrow> Inl e
                                    | Inr sv \<Rightarrow>
                                        (case dict_update j [(''type'', tv), (''style'', sv)] of
                                           Inl e \<Rightarrow> Inl e
                                         | Inr j' \<Rightarrow> setattr self1 ''_json'' j'))))))))"

text \<open>
  \<^verbatim>\<open>super().__init__(**kwargs)
  self.type = ComponentType(self.type)\<close>
  (component.py, \<open>Component.__init__\<close>). \<open>variants\<close> are the underlying integers of the
  members of \<open>ComponentType\<close>.
\<close>

definition Component_init :: "codec \<Rightarrow> int list \<Rightarrow> (string \<times> pyval) list \<Rightarrow> error + pyval" where
  "Component_init k variants kwargs =
     (case DictSerializerMixin_init k ''Component'' Component_slots kwargs of
        Inl e \<Rightarrow> Inl e
      | Inr self0 \<Rightarrow>
          (case getattr self0 ''type'' of
             Inl e \<Rightarrow> Inl e
           | Inr t \<Rightarrow>
               (case enumCoerce ''ComponentType'' variants t of
                  Inl e \<Rightarrow> Inl e
                | Inr t' \<Rightarrow> setattr self0 ''type'' t')))"

text \<open>
  \<^verbatim>\<open>super().__init__(**kwargs)
  self.type = 1\<close>
  (component.py, \<open>ActionRow.__init__\<close>).
\<close>

definition ActionRow_init :: "codec \<Rightarrow> (string \<times> pyval) list \<Rightarrow> error + pyval" where
  "ActionRow_init k kwargs =
     (case DictSerializerMixin_init k ''ActionRow'' ActionRow_slots kwargs of
        Inl e \<Rightarrow> Inl e
      | Inr self0 \<Rightarrow> setattr self0 ''type'' (PyInt 1))"

section \<open>Concrete inputs\<close>

text \<open>
  For the closed examples: the library functions on the literals the examples use
  (one timestamp, as seconds since the epoch, and one numeric string).
\<close>

definition sample_codec :: codec where
  "sample_codec =
     \<lparr>parse_ts = (\<lambda>s. if s = ''2021-06-01T12:00:00'' then Some 1622548800 else None),
      format_ts = (\<lambda>t. if t = 1622548800 then ''2021-06-01T12:00:00'' else []),
      parse_int = (\<lambda>s. if s = ''42'' then Some 42 else None)\<rparr>"

text \<open>A guild member payload without the optional keys.\<close>

definition member_raw :: "(string \<times> pyval) list" where
  "member_raw =
     [(''roles'', PyList []),
      (''joined_at'', PyStr ''2021-06-01T12:00:00''),
      (''deaf'', PyBool False),
      (''mute'', PyBool False),
      (''flags'', PyInt 0)]"


text \<open>
  A transport that answers every request with \<open>{"id": "42"}\<close>, a network on which
  nothing has been called, and constructors for \<open>Channel\<close> and \<open>Message\<close> that keep
  the id.
\<close>

definition sample_http :: "unit http" where
  "sample_http c r w = (Inr (PyDict [(''id'', PyStr ''42'')]), w)"

definition sample_net :: "unit net" where
  "sample_net = \<lparr>world = (), calls = []\<rparr>"

definition sample_deps :: deps where
  "sample_deps =
     \<lparr>build_components = (\<lambda>v. Inr v),
      json_payload = (\<lambda>file i. getattr file ''_json''),
      Channel_init = (\<lambda>kw. case kw of PyDict d \<Rightarrow> fromJSON sample_codec (''Channel'', [Field ''id'' ''id'' Snowflake None False]) d PyNone | _ \<Rightarrow> Inl (TypeError ''argument after ** must be a mapping'')),
      Message_init = (\<lambda>kw cl. case kw of PyDict d \<Rightarrow> fromJSON sample_codec (''Message'', [Field ''id'' ''id'' Snowflake None False]) d cl | _ \<Rightarrow> Inl (TypeError ''argument after ** must be a mapping''))\<rparr>"

text \<open>A member and an invite built by hand, without a client.\<close>

definition detached_member :: pyval where
  "detached_member =
     PyObj ''Member'' PyNone []
       [(''user'', PyObj ''User'' PyNone [] [(''id'', PyInt 42), (''username'', PyStr ''global''), (''avatar'', PyNone)]),
        (''nick'', PyNone)]"

definition detached_invite :: pyval where
  "detached_invite = PyObj ''Invite'' PyNone [] [(''code'', PyStr ''abc''), (''_channel_id'', PyInt 42), (''_inviter_id'', PyNone)]"

text \<open>
  A guild member payload with its user, and the member the pipeline builds from it for
  client number 1.
\<close>

definition member_payload :: "(string \<times> pyval) list" where
  "member_payload =
     [(''user'', PyDict [(''id'', PyStr ''42''), (''username'', PyStr ''global''),
                         (''avatar'', PyStr ''abc123'')]),
      (''nick'', PyStr ''guildnick''),
      (''avatar'', PyNone),
      (''roles'', PyList [PyStr ''42'']),
      (''joined_at'', PyStr ''2021-06-01T12:00:00''),
      (''deaf'', PyBool False),
      (''mute'', PyBool False),
      (''flags'', PyInt 0)]"

definition attached_member :: pyval where
  "attached_member =
     PyObj ''Member'' (PyClient 7) []
       [(''user'', PyObj ''User'' (PyClient 7) []
            [(''id'', PyInt 42), (''username'', PyStr ''global''), (''avatar'', PyStr ''abc123'')]),
        (''nick'', PyStr ''guildnick''),
        (''_avatar'', PyNone),
        (''roles'', PyList [PyStr ''42'']),
        (''joined_at'', PyDatetime 1622548800),
        (''premium_since'', PyNone),
        (''deaf'', PyBool False),
        (''mute'', PyBool False),
        (''is_pending'', PyNone),
        (''pending'', PyNone),
        (''permissions'', PyNone),
        (''communication_disabled_until'', PyNone),
        (''hoisted_role'', PyNone),
        (''flags'', PyInt 0)]"

text \<open>
  The same member before a modification: another nickname, and one key in the extra-data
  bag. A transport that answers with the member payload, and one that refuses.
\<close>

definition stale_member :: pyval where
  "stale_member =
     PyObj ''Member'' (PyClient 7) [(''seen'', PyBool True)]
       [(''user'', PyObj ''User'' (PyClient 7) []
            [(''id'', PyInt 42), (''username'', PyStr ''global''), (''avatar'', PyStr ''abc123'')]),
        (''nick'', PyStr ''old''),
        (''_avatar'', PyStr ''def456''),
        (''roles'', PyList []),
        (''joined_at'', PyDatetime 1622548800),
        (''premium_since'', PyNone),
        (''deaf'', PyBool True),
        (''mute'', PyBool False),
        (''is_pending'', PyNone),
        (''pending'', PyNone),
        (''permissions'', PyNone),
        (''communication_disabled_until'', PyNone),
        (''hoisted_role'', PyNone),
        (''flags'', PyInt 0)]"

definition member_http :: "unit http" where
  "member_http c r w = (Inr (PyDict member_payload), w)"

definition failing_http :: "unit http" where
  "failing_http c r w = (Inl (HTTPError ''403 Forbidden''), w)"

text \<open>
  The payload of the renamed-key example: a null guild avatar and a user with an avatar;
  and the same with the empty string as guild avatar.
\<close>

definition avatar_raw :: "(string \<times> pyval) list" where
  "avatar_raw = [(''avatar'', PyNone), (''user'', PyDict [(''avatar'', PyStr ''abc123'')])]"

definition empty_avatar_raw :: "(string \<times> pyval) list" where
  "empty_avatar_raw = [(''avatar'', PyStr []), (''user'', PyDict [(''avatar'', PyStr ''abc123'')])]"

text \<open>
  An invite of client number 7 with a target user and no inviter, and the caches of the
  clients: the cache of client 7 answers channel 42 and no user.
\<close>

definition attached_invite :: pyval where
  "attached_invite =
     PyObj ''Invite'' (PyClient 7) [(''flags'', PyInt 1)]
       [(''code'', PyStr ''abc''), (''uses'', PyInt 0), (''max_uses'', PyInt 0),
        (''max_age'', PyInt 0), (''created_at'', PyDatetime 1622548800),
        (''temporary'', PyBool False), (''target_type'', PyInt 7),
        (''approximate_presence_count'', MISSING), (''approximate_member_count'', MISSING),
        (''scheduled_event'', PyNone), (''expires_at'', PyNone), (''stage_instance'', PyNone),
        (''target_application'', PyNone), (''guild_preview'', MISSING),
        (''_channel_id'', PyInt 42), (''_inviter_id'', PyNone), (''_target_user_id'', PyInt 5)]"

definition sample_caches :: "nat \<Rightarrow> cache" where
  "sample_caches c =
     \<lparr>get_channel =
        (\<lambda>ident. if c = 7 \<and> ident = PyInt 42
                  then PyObj ''Channel'' (PyClient 7) [] [(''id'', PyInt 42)] else PyNone),
      get_user = (\<lambda>ident. PyNone)\<rparr>"

text \<open>
  An invite without a client whose three stored identifiers are None.
\<close>

definition blank_invite :: pyval where
  "blank_invite =
     PyObj ''Invite'' PyNone []
       [(''code'', PyStr ''abc''), (''_channel_id'', PyNone), (''_inviter_id'', PyNone),
        (''_target_user_id'', PyNone)]"

text \<open>
  Keyword arguments of components: a component of a type no variant maps, a component of
  type 2, and a button whose caller passes a type of its own.
\<close>

definition unknown_component_raw :: "(string \<times> pyval) list" where
  "unknown_component_raw = [(''type'', PyInt 99), (''custom_id'', PyStr ''x'')]"

definition known_component_raw :: "(string \<times> pyval) list" where
  "known_component_raw = [(''type'', PyInt 2), (''custom_id'', PyStr ''x'')]"

definition button_kwargs :: "(string \<times> pyval) list" where
  "button_kwargs =
     [(''type'', PyInt 99), (''style'', PyEnum ''ButtonStyle'' 1), (''label'', PyStr ''ok'')]"



section \<open>Verified properties\<close>

subsection \<open>Attributes built by the pipeline\<close>

lemma from_fields_Cons:
  "from_fields k cl (f # fs) raw =
     (case field_value k cl f raw of
        Inl e \<Rightarrow> Inl e
      | Inr x \<Rightarrow>
          (case from_fields k cl fs raw of
             Inl e \<Rightarrow> Inl e
           | Inr rest \<Rightarrow> Inr ((field_name f, x) # rest)))"
  by (cases f) (auto simp: field_value_def split: sum.splits option.splits)

lemma field_value_delete:
  "wire_key f \<noteq> w \<Longrightarrow> field_value k cl f (AList.delete w raw) = field_value k cl f raw"
  by (cases f) (simp add: field_value_def delete_conv')

lemma from_fields_lookup:
  "from_fields k cl fs raw = Inr as \<Longrightarrow> distinct (map field_name fs) \<Longrightarrow> f \<in> set fs \<Longrightarrow>
   \<exists>x. map_of as (field_name f) = Some x \<and> field_value k cl f raw = Inr x"
proof (induction fs arbitrary: as)
  case Nil
  then show ?case by simp
next
  case (Cons g fs)
  from Cons.prems(1) obtain x rest where
    hd: "field_value k cl g raw = Inr x"
    and tl: "from_fields k cl fs raw = Inr rest" and as: "as = (field_name g, x) # rest"
    unfolding from_fields_Cons by (auto split: sum.splits)
  show ?case
  proof (cases "f = g")
    case True
    with hd as show ?thesis by simp
  next
    case False
    with Cons.prems have mem: "f \<in> set fs" by simp
    then have "field_name f \<in> set (map field_name fs)" by simp
    with Cons.prems(2) have "field_name f \<noteq> field_name g" by auto
    moreover from Cons.prems(2) have "distinct (map field_name fs)" by simp
    ultimately show ?thesis using Cons.IH [OF tl _ mem] as by simp
  qed
qed

lemma from_fields_identity:
  "\<forall>f \<in> set fs. field_conv f = Identity \<Longrightarrow> \<exists>as. from_fields k cl fs raw = Inr as"
proof (induction fs)
  case Nil
  then show ?case by simp
next
  case (Cons f fs)
  obtain n w c d ac where f: "f = Field n w c d ac" by (cases f)
  with Cons.prems have c: "c = Identity" by simp
  then have "\<exists>x. field_value k cl f raw = Inr x"
    using f by (simp add: field_value_def split: option.splits)
  moreover from Cons obtain as where "from_fields k cl fs raw = Inr as" by auto
  ultimately show ?case unfolding from_fields_Cons by auto
qed

lemma from_fields_delete_other:
  "w \<notin> set (map wire_key fs) \<Longrightarrow>
   from_fields k cl fs (AList.delete w raw) = from_fields k cl fs raw"
proof (induction fs)
  case Nil
  then show ?case by simp
next
  case (Cons f fs)
  then have "wire_key f \<noteq> w" by auto
  with Cons show ?case
    unfolding from_fields_Cons by (simp add: field_value_delete split: sum.splits)
qed

lemma from_fields_unknown_enum:
  assumes "distinct (map wire_key fs)" and "distinct (map field_name fs)"
    and "Field n w (Optional (EnumCoerce c known)) d ac \<in> set fs"
    and "map_of raw w = Some (PyInt i)" and "i \<notin> set known"
  shows "from_fields k cl fs raw =
           (case from_fields k cl fs (AList.delete w raw) of
              Inl e \<Rightarrow> Inl e
            | Inr as \<Rightarrow> Inr (AList.update n (PyInt i) as))"
  using assms(1-3)
proof (induction fs)
  case Nil
  then show ?case by simp
next
  case (Cons f fs)
  let ?e = "Field n w (Optional (EnumCoerce c known)) d ac"
  show ?case
  proof (cases "?e = f")
    case True
    with Cons.prems have "w \<notin> set (map wire_key fs)" by auto
    then have tl: "from_fields k cl fs (AList.delete w raw) = from_fields k cl fs raw"
      by (rule from_fields_delete_other)
    have v1: "field_value k cl f raw = Inr (PyInt i)"
      using True assms(4,5) by (auto simp: field_value_def)
    have "\<exists>x0. field_value k cl f (AList.delete w raw) = Inr x0"
      using True by (auto simp: field_value_def delete_conv')
    then obtain x0 where v2: "field_value k cl f (AList.delete w raw) = Inr x0" by blast
    have nm: "field_name f = n" using True by auto
    show ?thesis
      unfolding from_fields_Cons v1 v2 tl nm by (simp split: sum.splits)
  next
    case False
    with Cons.prems have mem: "?e \<in> set fs" by simp
    then have "n \<in> set (map field_name fs)" "w \<in> set (map wire_key fs)" by force+
    moreover from Cons.prems have "field_name f \<notin> set (map field_name fs)"
      "wire_key f \<notin> set (map wire_key fs)" by simp_all
    ultimately have ne: "n \<noteq> field_name f" "wire_key f \<noteq> w" by blast+
    from Cons.prems have "distinct (map wire_key fs)" "distinct (map field_name fs)" by auto
    from Cons.IH [OF this mem] ne show ?thesis
      unfolding from_fields_Cons by (simp add: field_value_delete split: sum.splits)
  qed
qed

subsection \<open>Action methods without a client\<close>

text \<open>
  Claim C1, as amended. On an instance whose client reference is None, \<open>kick\<close>,
  \<open>add_role\<close>, \<open>remove_role\<close>, \<open>send\<close>, \<open>modify\<close> and \<open>add_to_thread\<close> raise
  \<open>AttributeError("HTTPClient not found!")\<close> and leave the network, and with it the list
  of transport calls, as it was; \<open>modify\<close> also leaves the instance as it was.
  \<open>Invite.delete\<close> has no check: it raises the AttributeError of reading \<open>http\<close> from
  None, again before any transport call. \<open>ban\<close> makes no transport call either.
\<close>

theorem absent_client_no_transport:
  assumes "getattr self ''_client'' = Inr PyNone"
  shows "Member_kick k h self guild_id reason s = (Inl MissingContext, s)
       \<and> Member_add_role k h self role guild_id reason s = (Inl MissingContext, s)
       \<and> Member_remove_role k h self role guild_id reason s = (Inl MissingContext, s)
       \<and> Member_send k d h self content components tts files embeds allowed_mentions s
            = (Inl MissingContext, s)
       \<and> Member_modify k h self guild_id nick roles mute deaf channel_id until reason s
            = (Inl MissingContext, self, s)
       \<and> Member_add_to_thread k h self thread_id s = (Inl MissingContext, s)
       \<and> Invite_delete h self reason s = (Inl (no_attribute PyNone ''http''), s)
       \<and> snd (Member_ban k h self guild_id reason days s) = s"
  using assms
  by (simp add: Member_kick_def Member_add_role_def Member_remove_role_def Member_send_def
      Member_modify_def Member_add_to_thread_def Invite_delete_def Member_ban_def
      client_attr_def)

theorem absent_client_no_transport_witness:
  "Member_kick sample_codec sample_http detached_member (PyInt 1) PyNone sample_net
     = (Inl MissingContext, sample_net)
   \<and> Member_modify sample_codec sample_http detached_member (PyInt 1) (PyStr ''n'') MISSING
       MISSING MISSING MISSING MISSING PyNone sample_net
     = (Inl MissingContext, detached_member, sample_net)
   \<and> Invite_delete sample_http detached_invite MISSING sample_net
     = (Inl (AttributeError ''NoneType object has no attribute http''), sample_net)
   \<and> snd (Member_ban sample_codec sample_http detached_member (PyInt 1) PyNone (PyInt 0)
       sample_net) = sample_net"
proof -
  have c: "getattr detached_member ''_client'' = Inr PyNone"
    by (simp add: detached_member_def)
  have c': "getattr detached_invite ''_client'' = Inr PyNone"
    by (simp add: detached_invite_def)
  show ?thesis
    using absent_client_no_transport
      [OF c, where k = sample_codec and h = sample_http and guild_id = "PyInt 1"
         and reason = PyNone and s = sample_net and nick = "PyStr ''n''" and roles = MISSING
         and mute = MISSING and deaf = MISSING and channel_id = MISSING and until = MISSING
         and days = "PyInt 0"]
      absent_client_no_transport
      [OF c', where h = sample_http and reason = MISSING and s = sample_net]
    by (simp add: no_attribute_def)
qed

text \<open>
  Claim C1 as stated fails for \<open>Invite.delete\<close>: the error it raises on an invite
  without a client is not the missing-context error.
\<close>

theorem absent_client_counterexample:
  "Invite_delete sample_http detached_invite MISSING sample_net
     = (Inl (AttributeError ''NoneType object has no attribute http''), sample_net)
   \<and> AttributeError ''NoneType object has no attribute http'' \<noteq> MissingContext"
  by (simp add: Invite_delete_def detached_invite_def client_attr_def no_attribute_def
      MissingContext_def)

subsection \<open>Payloads of the action methods\<close>

lemma attached_member_built:
  "Member_init sample_codec member_payload (PyClient 7) = Inr attached_member"
  by (simp add: Member_init_def fromJSON_def Member_schema_def Member_fields_def User_fields_def
      member_payload_def attached_member_def sample_codec_def)

lemma map_of_update_unless_missing:
  "map_of (if v \<noteq> MISSING then AList.update key v p else p) x =
     (if x = key \<and> v \<noteq> MISSING then Some v else map_of p x)"
  by (simp add: update_conv')

lemma modify_payload_lookup:
  "map_of (modify_payload nick roles mute deaf channel_id until) key =
     (if key = ''communication_disabled_until'' \<and> until \<noteq> MISSING then Some until
      else if key = ''deaf'' \<and> deaf \<noteq> MISSING then Some deaf
      else if key = ''mute'' \<and> mute \<noteq> MISSING then Some mute
      else if key = ''channel_id'' \<and> channel_id \<noteq> MISSING then Some channel_id
      else if key = ''roles'' \<and> roles \<noteq> MISSING then Some roles
      else if key = ''nick'' \<and> nick \<noteq> MISSING then Some nick
      else None)"
  unfolding modify_payload_def Let_def map_of_update_unless_missing by simp

lemma modify_payload_keys:
  "set (map fst (modify_payload nick roles mute deaf channel_id until)) =
     {key. (key = ''nick'' \<and> nick \<noteq> MISSING)
         \<or> (key = ''roles'' \<and> roles \<noteq> MISSING)
         \<or> (key = ''channel_id'' \<and> channel_id \<noteq> MISSING)
         \<or> (key = ''mute'' \<and> mute \<noteq> MISSING)
         \<or> (key = ''deaf'' \<and> deaf \<noteq> MISSING)
         \<or> (key = ''communication_disabled_until'' \<and> until \<noteq> MISSING)}"
proof -
  have "set (map fst (modify_payload nick roles mute deaf channel_id until)) =
          dom (map_of (modify_payload nick roles mute deaf channel_id until))"
    by (simp add: dom_map_of_conv_image_fst)
  also have "\<dots> = {key. (key = ''nick'' \<and> nick \<noteq> MISSING)
         \<or> (key = ''roles'' \<and> roles \<noteq> MISSING)
         \<or> (key = ''channel_id'' \<and> channel_id \<noteq> MISSING)
         \<or> (key = ''mute'' \<and> mute \<noteq> MISSING)
         \<or> (key = ''deaf'' \<and> deaf \<noteq> MISSING)
         \<or> (key = ''communication_disabled_until'' \<and> until \<noteq> MISSING)}"
    unfolding dom_def modify_payload_lookup by (auto split: if_splits)
  finally show ?thesis .
qed

lemma modify_calls:
  "calls (snd (snd (Member_modify k h self guild_id nick roles mute deaf channel_id until reason s)))
     = calls s
   \<or> (\<exists>c uid. calls (snd (snd (Member_modify k h self guild_id nick roles mute deaf channel_id
                 until reason s)))
        = calls s @ [(c, modify_member uid guild_id
                          (PyDict (modify_payload nick roles mute deaf channel_id until)) reason)])"
  by (auto simp: Member_modify_def Let_def await_def split: sum.splits prod.splits)

lemma send_payload_keys:
  assumes "send_payload d content components tts files embeds allowed_mentions = Inr (p, f)"
  shows "map fst p = [''content'', ''tts'', ''attachments'', ''embeds'', ''components'', ''allowed_mentions'']
   \<and> map_of p ''content'' = Some (if content = MISSING then PyStr [] else content)
   \<and> map_of p ''tts'' = Some (if tts = MISSING then PyBool False else tts)
   \<and> map_of p ''allowed_mentions'' =
        Some (if allowed_mentions = MISSING then PyDict [] else allowed_mentions)
   \<and> (embeds = MISSING \<longrightarrow> map_of p ''embeds'' = Some (PyList []))
   \<and> (components = MISSING \<longrightarrow> map_of p ''components'' = Some (PyList []))
   \<and> (files = MISSING \<longrightarrow> map_of p ''attachments'' = Some (PyList []))"
proof -
  from assms obtain es cs fs where
    es: "send_embeds embeds = Inr es"
    and cs: "send_components d components = Inr cs"
    and fs: "send_files d files = Inr (fs, f)"
    and p: "p = [(''content'', if content = MISSING then PyStr [] else content),
                 (''tts'', if tts = MISSING then PyBool False else tts),
                 (''attachments'', fs),
                 (''embeds'', es),
                 (''components'', cs),
                 (''allowed_mentions'',
                    if allowed_mentions = MISSING then PyDict [] else allowed_mentions)]"
    unfolding send_payload_def Let_def by (auto split: sum.splits)
  have "embeds = MISSING \<longrightarrow> es = PyList []"
    using es by (auto simp: send_embeds_def)
  moreover have "components = MISSING \<longrightarrow> cs = PyList []"
    using cs by (auto simp: send_components_def)
  moreover have "files = MISSING \<longrightarrow> fs = PyList []"
    using fs by (auto simp: send_files_def)
  ultimately show ?thesis
    unfolding p by simp
qed

lemma send_calls:
  "calls (snd (Member_send k d h self content components tts files embeds allowed_mentions s))
     = calls s
   \<or> (\<exists>c uid. calls (snd (Member_send k d h self content components tts files embeds
                          allowed_mentions s))
        = calls s @ [(c, create_dm uid)])
   \<or> (\<exists>c uid c' cid p f.
        send_payload d content components tts files embeds allowed_mentions = Inr (p, f)
        \<and> calls (snd (Member_send k d h self content components tts files embeds
                          allowed_mentions s))
          = calls s @ [(c, create_dm uid), (c', create_message cid (PyDict p) f)])"
  by (auto simp: Member_send_def await_def split: sum.splits prod.splits)

text \<open>
  Claim C2, as amended. The payload of \<open>Member.modify\<close> holds exactly the keys of the
  parameters that are not the unset marker, each with the value supplied, and it is the
  payload of the one transport call \<open>modify\<close> makes. The payload of \<open>Member.send\<close>
  always holds the six keys \<open>content\<close>, \<open>tts\<close>, \<open>attachments\<close>, \<open>embeds\<close>,
  \<open>components\<close> and \<open>allowed_mentions\<close>: a parameter left at the unset marker is sent as
  its default (the empty string, False, the empty list, the empty dict), and this is the
  payload of the \<open>create_message\<close> call.
\<close>

theorem action_payload_keys:
  "set (map fst (modify_payload nick roles mute deaf channel_id until)) =
     {key. (key = ''nick'' \<and> nick \<noteq> MISSING)
         \<or> (key = ''roles'' \<and> roles \<noteq> MISSING)
         \<or> (key = ''channel_id'' \<and> channel_id \<noteq> MISSING)
         \<or> (key = ''mute'' \<and> mute \<noteq> MISSING)
         \<or> (key = ''deaf'' \<and> deaf \<noteq> MISSING)
         \<or> (key = ''communication_disabled_until'' \<and> until \<noteq> MISSING)}
   \<and> (nick \<noteq> MISSING \<longrightarrow>
         map_of (modify_payload nick roles mute deaf channel_id until) ''nick'' = Some nick)
   \<and> (roles \<noteq> MISSING \<longrightarrow>
         map_of (modify_payload nick roles mute deaf channel_id until) ''roles'' = Some roles)
   \<and> (channel_id \<noteq> MISSING \<longrightarrow>
         map_of (modify_payload nick roles mute deaf channel_id until) ''channel_id''
           = Some channel_id)
   \<and> (mute \<noteq> MISSING \<longrightarrow>
         map_of (modify_payload nick roles mute deaf channel_id until) ''mute'' = Some mute)
   \<and> (deaf \<noteq> MISSING \<longrightarrow>
         map_of (modify_payload nick roles mute deaf channel_id until) ''deaf'' = Some deaf)
   \<and> (until \<noteq> MISSING \<longrightarrow>
         map_of (modify_payload nick roles mute deaf channel_id until)
           ''communication_disabled_until'' = Some until)
   \<and> (calls (snd (snd (Member_modify k h self guild_id nick roles mute deaf channel_id until
                  reason s))) = calls s
        \<or> (\<exists>c uid. calls (snd (snd (Member_modify k h self guild_id nick roles mute deaf
                           channel_id until reason s)))
             = calls s @ [(c, modify_member uid guild_id
                  (PyDict (modify_payload nick roles mute deaf channel_id until)) reason)]))
   \<and> (\<forall>p f. send_payload d content components tts files embeds allowed_mentions = Inr (p, f)
          \<longrightarrow> map fst p = [''content'', ''tts'', ''attachments'', ''embeds'', ''components'',
                            ''allowed_mentions'']
            \<and> map_of p ''content'' = Some (if content = MISSING then PyStr [] else content)
            \<and> map_of p ''tts'' = Some (if tts = MISSING then PyBool False else tts)
            \<and> map_of p ''allowed_mentions'' =
                 Some (if allowed_mentions = MISSING then PyDict [] else allowed_mentions)
            \<and> (embeds = MISSING \<longrightarrow> map_of p ''embeds'' = Some (PyList []))
            \<and> (components = MISSING \<longrightarrow> map_of p ''components'' = Some (PyList []))
            \<and> (files = MISSING \<longrightarrow> map_of p ''attachments'' = Some (PyList [])))
   \<and> (calls (snd (Member_send k d h self content components tts files embeds allowed_mentions
                  s)) = calls s
        \<or> (\<exists>c uid. calls (snd (Member_send k d h self content components tts files embeds
                           allowed_mentions s))
             = calls s @ [(c, create_dm uid)])
        \<or> (\<exists>c uid c' cid p f.
             send_payload d content components tts files embeds allowed_mentions = Inr (p, f)
             \<and> calls (snd (Member_send k d h self content components tts files embeds
                           allowed_mentions s))
               = calls s @ [(c, create_dm uid), (c', create_message cid (PyDict p) f)]))"
proof -
  note lk = modify_payload_lookup [of nick roles mute deaf channel_id until]
  have a: "(nick \<noteq> MISSING \<longrightarrow>
         map_of (modify_payload nick roles mute deaf channel_id until) ''nick'' = Some nick)"
    by (simp add: lk)
  have b: "(roles \<noteq> MISSING \<longrightarrow>
         map_of (modify_payload nick roles mute deaf channel_id until) ''roles'' = Some roles)"
    by (simp add: lk)
  have c: "(channel_id \<noteq> MISSING \<longrightarrow>
         map_of (modify_payload nick roles mute deaf channel_id until) ''channel_id''
           = Some channel_id)"
    by (simp add: lk)
  have d: "(mute \<noteq> MISSING \<longrightarrow>
         map_of (modify_payload nick roles mute deaf channel_id until) ''mute'' = Some mute)"
    by (simp add: lk)
  have e: "(deaf \<noteq> MISSING \<longrightarrow>
         map_of (modify_payload nick roles mute deaf channel_id until) ''deaf'' = Some deaf)"
    by (simp add: lk)
  have f: "(until \<noteq> MISSING \<longrightarrow>
         map_of (modify_payload nick roles mute deaf channel_id until)
           ''communication_disabled_until'' = Some until)"
    by (simp add: lk)
  show ?thesis
    by (intro conjI modify_payload_keys a b c d e f modify_calls send_calls allI impI
        send_payload_keys)
qed

theorem action_payload_keys_witness:
  "modify_payload (PyStr ''n'') MISSING MISSING MISSING MISSING MISSING = [(''nick'', PyStr ''n'')]
   \<and> set (map fst (modify_payload (PyStr ''n'') MISSING MISSING MISSING MISSING MISSING))
       = {''nick''}
   \<and> send_payload sample_deps (PyStr ''hi'') MISSING MISSING MISSING MISSING MISSING =
       Inr ([(''content'', PyStr ''hi''), (''tts'', PyBool False), (''attachments'', PyList []),
             (''embeds'', PyList []), (''components'', PyList []),
             (''allowed_mentions'', PyDict [])], MISSING)
   \<and> map fst [(''content'', PyStr ''hi''), (''tts'', PyBool False), (''attachments'', PyList []),
             (''embeds'', PyList []), (''components'', PyList []),
             (''allowed_mentions'', PyDict [])]
       = [''content'', ''tts'', ''attachments'', ''embeds'', ''components'', ''allowed_mentions'']"
proof -
  have sp: "send_payload sample_deps (PyStr ''hi'') MISSING MISSING MISSING MISSING MISSING =
       Inr ([(''content'', PyStr ''hi''), (''tts'', PyBool False), (''attachments'', PyList []),
             (''embeds'', PyList []), (''components'', PyList []),
             (''allowed_mentions'', PyDict [])], MISSING)"
    by (simp add: send_payload_def send_embeds_def send_components_def send_files_def)
  have mp: "modify_payload (PyStr ''n'') MISSING MISSING MISSING MISSING MISSING
              = [(''nick'', PyStr ''n'')]"
    by (simp add: modify_payload_def)
  note t = action_payload_keys
    [where nick = "PyStr ''n''" and roles = MISSING and mute = MISSING and deaf = MISSING
       and channel_id = MISSING and until = MISSING and d = sample_deps
       and content = "PyStr ''hi''" and components = MISSING and tts = MISSING
       and files = MISSING and embeds = MISSING and allowed_mentions = MISSING
       and k = sample_codec and h = sample_http and self = attached_member
       and guild_id = PyNone and reason = PyNone and s = sample_net]
  have ks: "set (map fst (modify_payload (PyStr ''n'') MISSING MISSING MISSING MISSING MISSING))
          = {''nick''}"
    using t [THEN conjunct1] by auto
  have "\<forall>p f. send_payload sample_deps (PyStr ''hi'') MISSING MISSING MISSING MISSING MISSING
                  = Inr (p, f)
          \<longrightarrow> map fst p = [''content'', ''tts'', ''attachments'', ''embeds'', ''components'',
                            ''allowed_mentions'']"
    using t [THEN conjunct2, THEN conjunct2, THEN conjunct2, THEN conjunct2, THEN conjunct2,
             THEN conjunct2, THEN conjunct2, THEN conjunct2, THEN conjunct1]
    by blast
  with sp have "map fst [(''content'', PyStr ''hi''), (''tts'', PyBool False),
             (''attachments'', PyList []), (''embeds'', PyList []), (''components'', PyList []),
             (''allowed_mentions'', PyDict [])]
       = [''content'', ''tts'', ''attachments'', ''embeds'', ''components'', ''allowed_mentions'']"
    by blast
  with sp mp ks show ?thesis by simp
qed

text \<open>
  Claim C2 as stated fails for \<open>Member.send\<close>: with every parameter left at the unset
  marker the payload handed to \<open>create_message\<close> holds all six keys.
\<close>

theorem action_payload_keys_counterexample:
  "snd (Member_send sample_codec sample_deps sample_http attached_member
          MISSING MISSING MISSING MISSING MISSING MISSING sample_net)
     = \<lparr>world = (),
        calls = [(7, create_dm 42),
                 (7, create_message 42
                       (PyDict [(''content'', PyStr []), (''tts'', PyBool False),
                                (''attachments'', PyList []), (''embeds'', PyList []),
                                (''components'', PyList []), (''allowed_mentions'', PyDict [])])
                       MISSING)]\<rparr>"
  by (simp add: Member_send_def send_payload_def send_embeds_def send_components_def
      send_files_def attached_member_def client_attr_def user_id_def await_def sample_http_def
      sample_net_def sample_deps_def fromJSON_def sample_codec_def)

subsection \<open>Re-hydration\<close>






lemma from_fields_names:
  "from_fields k cl fs raw = Inr as \<Longrightarrow> map fst as = map field_name fs"
proof (induction fs arbitrary: as)
  case Nil
  then show ?case by simp
next
  case (Cons f fs)
  obtain n w c d ac where f: "f = Field n w c d ac" by (cases f)
  from Cons.prems f obtain x rest where
    "from_fields k cl fs raw = Inr rest" "as = (n, x) # rest"
    by (auto split: sum.splits)
  with Cons.IH f show ?case by simp
qed








subsection \<open>Member.modify\<close>

lemma getattr_setattr:
  "setattr self a v = Inr self' \<Longrightarrow> getattr self' b = (if b = a then Inr v else getattr self b)"
  by (cases self) (auto simp: update_conv' no_attribute_def split: if_splits pyval.splits option.splits)

lemma setattr_PyObj:
  "a \<noteq> ''_extras'' \<Longrightarrow> \<exists>cl' as'. setattr (PyObj c cl ex as) a v = Inr (PyObj c cl' ex as')"
  by simp

lemma copy_slots_getattr:
  "copy_slots slots member self = (Inr u, self') \<Longrightarrow>
   getattr self' b = (if b \<in> set slots then getattr member b else getattr self b)"
proof (induction slots arbitrary: self)
  case Nil
  then show ?case by simp
next
  case (Cons a slots)
  from Cons.prems obtain v s1 where
    g: "getattr member a = Inr v" and st: "setattr self a v = Inr s1"
    and rest: "copy_slots slots member s1 = (Inr u, self')"
    by (auto split: sum.splits)
  from Cons.IH [OF rest] getattr_setattr [OF st, of b] g show ?case by auto
qed

lemma copy_slots_total:
  "\<forall>a \<in> set slots. \<exists>v. getattr member a = Inr v \<Longrightarrow> ''_extras'' \<notin> set slots \<Longrightarrow>
   \<exists>self'. copy_slots slots member (PyObj c cl ex as) = (Inr (), self')"
proof (induction slots arbitrary: cl as)
  case Nil
  then show ?case by simp
next
  case (Cons a slots)
  from Cons.prems obtain v where g: "getattr member a = Inr v" by auto
  from Cons.prems have ne: "a \<noteq> ''_extras''" by auto
  from setattr_PyObj [OF ne] obtain cl' as' where
    st: "setattr (PyObj c cl ex as) a v = Inr (PyObj c cl' ex as')" by blast
  from Cons.IH [of cl' as'] Cons.prems obtain self' where
    "copy_slots slots member (PyObj c cl' ex as') = (Inr (), self')" by auto
  with g st show ?case by simp
qed

lemma Member_init_slots:
  assumes "Member_init k kwargs cl = Inr member"
  shows "\<forall>a \<in> set Member_slots. \<exists>v. getattr member a = Inr v"
proof -
  from assms obtain ex as where m: "member = PyObj ''Member'' cl ex as"
    and ff: "from_fields k cl Member_fields kwargs = Inr as"
    by (auto simp: Member_init_def fromJSON_def Member_schema_def split: sum.splits)
  have names: "map fst as = Member_slots"
    using from_fields_names [OF ff] by (simp add: Member_slots_def)
  show ?thesis
  proof
    fix a assume "a \<in> set Member_slots"
    with names have "a \<in> fst ` set as" by (metis list.set_map)
    then obtain v where "map_of as a = Some v"
      by (metis map_of_eq_None_iff not_Some_eq)
    with m show "\<exists>v. getattr member a = Inr v" by simp
  qed
qed

lemma Member_slots_no_extras: "''_extras'' \<notin> set Member_slots" "''_client'' \<notin> set Member_slots"
  by (simp_all add: Member_slots_def Member_fields_def)


text \<open>
  Claim C4. When \<open>Member.modify\<close> returns, the client was attached, the object returned
  is the \<open>Member\<close> freshly built from the response of \<open>modify_member\<close> with the
  instance's client, and every attribute of the slot list reads on the instance what it
  reads on that fresh member: all of them are replaced, whichever parameters were passed.
\<close>

theorem Member_modify_replaces_every_slot:
  assumes "Member_modify k h self guild_id nick roles mute deaf channel_id until reason s
             = (Inr member, self', s')"
  shows "\<exists>cl c uid res kwargs.
           getattr self ''_client'' = Inr cl \<and> truthy cl
         \<and> await h c (modify_member uid guild_id
               (PyDict (modify_payload nick roles mute deaf channel_id until)) reason) s
             = (Inr res, s')
         \<and> kwargs_with_client res = Inr kwargs
         \<and> Member_init k kwargs cl = Inr member
         \<and> (\<forall>a \<in> set Member_slots. getattr self' a = getattr member a)
         \<and> (\<forall>a \<in> set Member_slots. \<exists>v. getattr member a = Inr v)"
proof -
  from assms obtain cl c uid res kwargs u where
    cl: "getattr self ''_client'' = Inr cl" "truthy cl"
    and aw: "await h c (modify_member uid guild_id
               (PyDict (modify_payload nick roles mute deaf channel_id until)) reason) s
             = (Inr res, s')"
    and kw: "kwargs_with_client res = Inr kwargs"
    and mi: "Member_init k kwargs cl = Inr member"
    and cp: "copy_slots Member_slots member self = (Inr u, self')"
    unfolding Member_modify_def Let_def
    by (auto split: sum.splits prod.splits if_splits)
  have "\<forall>a \<in> set Member_slots. getattr self' a = getattr member a"
    using copy_slots_getattr [OF cp] by simp
  with cl aw kw mi Member_init_slots [OF mi] show ?thesis by blast
qed

theorem Member_modify_replaces_every_slot_witness:
  "Member_modify sample_codec member_http stale_member (PyInt 7) (PyStr ''guildnick'')
       MISSING MISSING MISSING MISSING MISSING PyNone sample_net
     = (Inr attached_member,
        PyObj ''Member'' (PyClient 7) [(''seen'', PyBool True)]
          [(''user'', PyObj ''User'' (PyClient 7) []
              [(''id'', PyInt 42), (''username'', PyStr ''global''),
               (''avatar'', PyStr ''abc123'')]),
           (''nick'', PyStr ''guildnick''),
           (''_avatar'', PyNone),
           (''roles'', PyList [PyStr ''42'']),
           (''joined_at'', PyDatetime 1622548800),
           (''premium_since'', PyNone),
           (''deaf'', PyBool False),
           (''mute'', PyBool False),
           (''is_pending'', PyNone),
           (''pending'', PyNone),
           (''permissions'', PyNone),
           (''communication_disabled_until'', PyNone),
           (''hoisted_role'', PyNone),
           (''flags'', PyInt 0)],
        \<lparr>world = (),
         calls = [(7, modify_member 42 (PyInt 7) (PyDict [(''nick'', PyStr ''guildnick'')])
                        PyNone)]\<rparr>)
   \<and> map (getattr (PyObj ''Member'' (PyClient 7) [(''seen'', PyBool True)]
          [(''user'', PyObj ''User'' (PyClient 7) []
              [(''id'', PyInt 42), (''username'', PyStr ''global''),
               (''avatar'', PyStr ''abc123'')]),
           (''nick'', PyStr ''guildnick''),
           (''_avatar'', PyNone),
           (''roles'', PyList [PyStr ''42'']),
           (''joined_at'', PyDatetime 1622548800),
           (''premium_since'', PyNone),
           (''deaf'', PyBool False),
           (''mute'', PyBool False),
           (''is_pending'', PyNone),
           (''pending'', PyNone),
           (''permissions'', PyNone),
           (''communication_disabled_until'', PyNone),
           (''hoisted_role'', PyNone),
           (''flags'', PyInt 0)])) Member_slots
       = map (getattr attached_member) Member_slots"
proof -
  have kw: "kwargs_with_client (PyDict member_payload) = Inr member_payload"
    by (simp add: kwargs_with_client_def member_payload_def)
  have p: "modify_payload (PyStr ''guildnick'') MISSING MISSING MISSING MISSING MISSING
             = [(''nick'', PyStr ''guildnick'')]"
    by (simp add: modify_payload_def)
  have uid: "user_id sample_codec stale_member = Inr 42"
    by (simp add: user_id_def stale_member_def)
  have cl: "getattr stale_member ''_client'' = Inr (PyClient 7)"
    by (simp add: stale_member_def)
  have cp: "copy_slots Member_slots attached_member stale_member
     = (Inr (),
        PyObj ''Member'' (PyClient 7) [(''seen'', PyBool True)]
          [(''user'', PyObj ''User'' (PyClient 7) []
              [(''id'', PyInt 42), (''username'', PyStr ''global''),
               (''avatar'', PyStr ''abc123'')]),
           (''nick'', PyStr ''guildnick''),
           (''_avatar'', PyNone),
           (''roles'', PyList [PyStr ''42'']),
           (''joined_at'', PyDatetime 1622548800),
           (''premium_since'', PyNone),
           (''deaf'', PyBool False),
           (''mute'', PyBool False),
           (''is_pending'', PyNone),
           (''pending'', PyNone),
           (''permissions'', PyNone),
           (''communication_disabled_until'', PyNone),
           (''hoisted_role'', PyNone),
           (''flags'', PyInt 0)])"
    by (simp add: Member_slots_def Member_fields_def attached_member_def stale_member_def)
  have ev: "Member_modify sample_codec member_http stale_member (PyInt 7) (PyStr ''guildnick'')
       MISSING MISSING MISSING MISSING MISSING PyNone sample_net
     = (Inr attached_member,
        PyObj ''Member'' (PyClient 7) [(''seen'', PyBool True)]
          [(''user'', PyObj ''User'' (PyClient 7) []
              [(''id'', PyInt 42), (''username'', PyStr ''global''),
               (''avatar'', PyStr ''abc123'')]),
           (''nick'', PyStr ''guildnick''),
           (''_avatar'', PyNone),
           (''roles'', PyList [PyStr ''42'']),
           (''joined_at'', PyDatetime 1622548800),
           (''premium_since'', PyNone),
           (''deaf'', PyBool False),
           (''mute'', PyBool False),
           (''is_pending'', PyNone),
           (''pending'', PyNone),
           (''permissions'', PyNone),
           (''communication_disabled_until'', PyNone),
           (''hoisted_role'', PyNone),
           (''flags'', PyInt 0)],
        \<lparr>world = (),
         calls = [(7, modify_member 42 (PyInt 7) (PyDict [(''nick'', PyStr ''guildnick'')])
                        PyNone)]\<rparr>)"
    unfolding Member_modify_def Let_def
    by (simp add: cl client_attr_def uid p await_def member_http_def sample_net_def kw
        attached_member_built cp)
  from Member_modify_replaces_every_slot [OF ev] ev show ?thesis
    unfolding map_eq_conv by blast
qed

text \<open>
  Claim C5. A call of \<open>Member.modify\<close> that raises leaves the instance as it was: the
  copy of the slots runs only after the response was received and converted, and cannot
  fail itself. When the transport raises, that error is what \<open>modify\<close> raises, after
  exactly that one transport call.
\<close>

theorem Member_modify_failure_keeps_instance:
  "(\<forall>e self' s'.
       Member_modify k h (PyObj cn cl ex as) guild_id nick roles mute deaf channel_id until
         reason s = (Inl e, self', s')
       \<longrightarrow> self' = PyObj cn cl ex as)
   \<and> (\<forall>c uid e w'.
         truthy cl \<and> client_attr cl ''modify_member'' = Inr c
         \<and> user_id k (PyObj cn cl ex as) = Inr uid
         \<and> h c (modify_member uid guild_id
                 (PyDict (modify_payload nick roles mute deaf channel_id until)) reason)
               (world s) = (Inl e, w')
       \<longrightarrow> Member_modify k h (PyObj cn cl ex as) guild_id nick roles mute deaf channel_id until
             reason s
           = (Inl e, PyObj cn cl ex as,
              \<lparr>world = w',
               calls = calls s @ [(c, modify_member uid guild_id
                 (PyDict (modify_payload nick roles mute deaf channel_id until)) reason)]\<rparr>))"
proof (intro conjI allI impI)
  fix e self' s'
  assume a: "Member_modify k h (PyObj cn cl ex as) guild_id nick roles mute deaf channel_id until
         reason s = (Inl e, self', s')"
  show "self' = PyObj cn cl ex as"
  proof (rule ccontr)
    assume ne: "self' \<noteq> PyObj cn cl ex as"
    with a obtain kwargs member where
      mi: "Member_init k kwargs cl = Inr member"
      and cp: "copy_slots Member_slots member (PyObj cn cl ex as) = (Inl e, self')"
      unfolding Member_modify_def Let_def
      by (auto split: sum.splits prod.splits if_splits)
    from copy_slots_total [OF Member_init_slots [OF mi] Member_slots_no_extras(1), of cn cl ex as]
    obtain s2 where "copy_slots Member_slots member (PyObj cn cl ex as) = (Inr (), s2)" by blast
    with cp show False by simp
  qed
next
  fix c uid e w'
  assume "truthy cl \<and> client_attr cl ''modify_member'' = Inr c
         \<and> user_id k (PyObj cn cl ex as) = Inr uid
         \<and> h c (modify_member uid guild_id
                 (PyDict (modify_payload nick roles mute deaf channel_id until)) reason)
               (world s) = (Inl e, w')"
  then show "Member_modify k h (PyObj cn cl ex as) guild_id nick roles mute deaf channel_id until
             reason s
           = (Inl e, PyObj cn cl ex as,
              \<lparr>world = w',
               calls = calls s @ [(c, modify_member uid guild_id
                 (PyDict (modify_payload nick roles mute deaf channel_id until)) reason)]\<rparr>)"
    by (simp add: Member_modify_def Let_def await_def)
qed

theorem Member_modify_failure_keeps_instance_witness:
  "Member_modify sample_codec failing_http stale_member (PyInt 7) (PyStr ''guildnick'')
       MISSING MISSING MISSING MISSING MISSING PyNone sample_net
     = (Inl (HTTPError ''403 Forbidden''), stale_member,
        \<lparr>world = (),
         calls = [(7, modify_member 42 (PyInt 7) (PyDict [(''nick'', PyStr ''guildnick'')])
                        PyNone)]\<rparr>)"
proof -
  have p: "modify_payload (PyStr ''guildnick'') MISSING MISSING MISSING MISSING MISSING
             = [(''nick'', PyStr ''guildnick'')]"
    by (simp add: modify_payload_def)
  have h: "truthy (PyClient 7) \<and> client_attr (PyClient 7) ''modify_member'' = Inr 7
         \<and> user_id sample_codec stale_member = Inr 42
         \<and> failing_http 7 (modify_member 42 (PyInt 7)
                 (PyDict (modify_payload (PyStr ''guildnick'') MISSING MISSING MISSING MISSING
                            MISSING)) PyNone)
               (world sample_net) = (Inl (HTTPError ''403 Forbidden''), ())"
    by (simp add: client_attr_def user_id_def stale_member_def failing_http_def)
  from Member_modify_failure_keeps_instance
         [where k = sample_codec and h = failing_http and cn = "''Member''" and cl = "PyClient 7"
            and guild_id = "PyInt 7" and nick = "PyStr ''guildnick''" and roles = MISSING
            and mute = MISSING and deaf = MISSING and channel_id = MISSING and until = MISSING
            and reason = PyNone and s = sample_net, THEN conjunct2, rule_format,
          OF h [unfolded stale_member_def]]
  show ?thesis by (simp add: p stale_member_def sample_net_def)
qed

subsection \<open>The avatar of a member\<close>

lemma Member_fields_distinct:
  "distinct (map field_name Member_fields)" "distinct (map wire_key Member_fields)"
  by (simp_all add: Member_fields_def)

text \<open>
  Claim C7, as amended. The attribute \<open>_avatar\<close> of a \<open>Member\<close> built from a raw
  mapping holds the raw value under the wire key \<open>avatar\<close> (None when the key is absent),
  and the nested user holds the raw user's avatar. The property \<open>avatar\<close> is \<open>_avatar\<close>
  when that is true as a condition (not None and not the empty string), and otherwise the
  avatar of the nested user, None when there is no user.
\<close>

theorem Member_avatar_fallback:
  assumes "Member_init k raw cl = Inr m"
  shows "\<exists>a u. getattr m ''_avatar'' = Inr a
          \<and> a = (case map_of raw ''avatar'' of None \<Rightarrow> PyNone | Some v \<Rightarrow> v)
          \<and> getattr m ''user'' = Inr u
          \<and> (map_of raw ''user'' = None \<longrightarrow> u = PyNone)
          \<and> (\<forall>ud. map_of raw ''user'' = Some (PyDict ud) \<longrightarrow>
                getattr u ''avatar''
                  = Inr (case map_of ud ''avatar'' of None \<Rightarrow> PyNone | Some v \<Rightarrow> v))
          \<and> Member_avatar m = Inr (if truthy a then a else getattr_default u ''avatar'' PyNone)"
proof -
  from assms obtain ex as where m: "m = PyObj ''Member'' cl ex as"
    and ff: "from_fields k cl Member_fields raw = Inr as"
    by (auto simp: Member_init_def fromJSON_def Member_schema_def split: sum.splits)
  have fa: "Field ''_avatar'' ''avatar'' Identity (Some PyNone) False \<in> set Member_fields"
    and fu: "Field ''user'' ''user'' (Optional (Nested ''User'' User_fields)) (Some PyNone) True
               \<in> set Member_fields"
    by (simp_all add: Member_fields_def)
  from from_fields_lookup [OF ff Member_fields_distinct(1) fa] obtain a where
    a: "map_of as ''_avatar'' = Some a"
    and av: "field_value k cl (Field ''_avatar'' ''avatar'' Identity (Some PyNone) False) raw = Inr a"
    by auto
  from from_fields_lookup [OF ff Member_fields_distinct(1) fu] obtain u where
    u: "map_of as ''user'' = Some u"
    and uv: "field_value k cl (Field ''user'' ''user''
               (Optional (Nested ''User'' User_fields)) (Some PyNone) True) raw = Inr u"
    by auto
  have a_eq: "a = (case map_of raw ''avatar'' of None \<Rightarrow> PyNone | Some v \<Rightarrow> v)"
    using av by (auto simp: field_value_def split: option.splits)
  have u_none: "map_of raw ''user'' = None \<longrightarrow> u = PyNone"
    using uv by (auto simp: field_value_def)
  have u_av: "getattr u ''avatar''
                = Inr (case map_of ud ''avatar'' of None \<Rightarrow> PyNone | Some v \<Rightarrow> v)"
    if ud: "map_of raw ''user'' = Some (PyDict ud)" for ud
  proof -
    from uv ud obtain uas where fu': "from_fields k cl User_fields ud = Inr uas"
      and u_obj: "u = PyObj ''User'' cl (filter (\<lambda>kv. fst kv \<notin> set (map wire_key User_fields)) ud) uas"
      by (auto simp: field_value_def split: sum.splits)
    have d: "distinct (map field_name User_fields)" by (simp add: User_fields_def)
    have mem: "Field ''avatar'' ''avatar'' Identity (Some PyNone) False \<in> set User_fields"
      by (simp add: User_fields_def)
    from from_fields_lookup [OF fu' d mem] obtain x where
      "map_of uas ''avatar'' = Some x"
      "field_value k cl (Field ''avatar'' ''avatar'' Identity (Some PyNone) False) ud = Inr x"
      by auto
    then show ?thesis using u_obj
      by (auto simp: field_value_def split: option.splits)
  qed
  have "Member_avatar m = Inr (if truthy a then a else getattr_default u ''avatar'' PyNone)"
    using m a u by (simp add: Member_avatar_def)
  with m a u a_eq u_none u_av show ?thesis by simp
qed

theorem Member_avatar_fallback_witness:
  "Member_init sample_codec avatar_raw (PyClient 7) =
     Inr (PyObj ''Member'' (PyClient 7) []
       [(''user'', PyObj ''User'' (PyClient 7) []
            [(''id'', MISSING), (''username'', MISSING), (''avatar'', PyStr ''abc123'')]),
        (''nick'', PyNone), (''_avatar'', PyNone), (''roles'', MISSING),
        (''joined_at'', MISSING), (''premium_since'', PyNone), (''deaf'', MISSING),
        (''mute'', MISSING), (''is_pending'', PyNone), (''pending'', PyNone),
        (''permissions'', PyNone), (''communication_disabled_until'', PyNone),
        (''hoisted_role'', PyNone), (''flags'', MISSING)])
   \<and> Member_avatar (PyObj ''Member'' (PyClient 7) []
       [(''user'', PyObj ''User'' (PyClient 7) []
            [(''id'', MISSING), (''username'', MISSING), (''avatar'', PyStr ''abc123'')]),
        (''nick'', PyNone), (''_avatar'', PyNone), (''roles'', MISSING),
        (''joined_at'', MISSING), (''premium_since'', PyNone), (''deaf'', MISSING),
        (''mute'', MISSING), (''is_pending'', PyNone), (''pending'', PyNone),
        (''permissions'', PyNone), (''communication_disabled_until'', PyNone),
        (''hoisted_role'', PyNone), (''flags'', MISSING)]) = Inr (PyStr ''abc123'')"
proof -
  have ev: "Member_init sample_codec avatar_raw (PyClient 7) =
     Inr (PyObj ''Member'' (PyClient 7) []
       [(''user'', PyObj ''User'' (PyClient 7) []
            [(''id'', MISSING), (''username'', MISSING), (''avatar'', PyStr ''abc123'')]),
        (''nick'', PyNone), (''_avatar'', PyNone), (''roles'', MISSING),
        (''joined_at'', MISSING), (''premium_since'', PyNone), (''deaf'', MISSING),
        (''mute'', MISSING), (''is_pending'', PyNone), (''pending'', PyNone),
        (''permissions'', PyNone), (''communication_disabled_until'', PyNone),
        (''hoisted_role'', PyNone), (''flags'', MISSING)])"
    by (simp add: Member_init_def fromJSON_def Member_schema_def Member_fields_def
        User_fields_def avatar_raw_def)
  from Member_avatar_fallback [OF ev] ev show ?thesis
    by (auto simp: avatar_raw_def getattr_default_def)
qed

text \<open>
  Claim C7 as stated fails when the guild avatar is the empty string: \<open>_avatar\<close> is not
  null, and the property returns the user's avatar.
\<close>

theorem Member_avatar_fallback_counterexample:
  "Member_init sample_codec empty_avatar_raw (PyClient 7) =
     Inr (PyObj ''Member'' (PyClient 7) []
       [(''user'', PyObj ''User'' (PyClient 7) []
            [(''id'', MISSING), (''username'', MISSING), (''avatar'', PyStr ''abc123'')]),
        (''nick'', PyNone), (''_avatar'', PyStr []), (''roles'', MISSING),
        (''joined_at'', MISSING), (''premium_since'', PyNone), (''deaf'', MISSING),
        (''mute'', MISSING), (''is_pending'', PyNone), (''pending'', PyNone),
        (''permissions'', PyNone), (''communication_disabled_until'', PyNone),
        (''hoisted_role'', PyNone), (''flags'', MISSING)])
   \<and> getattr (PyObj ''Member'' (PyClient 7) []
       [(''user'', PyObj ''User'' (PyClient 7) []
            [(''id'', MISSING), (''username'', MISSING), (''avatar'', PyStr ''abc123'')]),
        (''nick'', PyNone), (''_avatar'', PyStr []), (''roles'', MISSING),
        (''joined_at'', MISSING), (''premium_since'', PyNone), (''deaf'', MISSING),
        (''mute'', MISSING), (''is_pending'', PyNone), (''pending'', PyNone),
        (''permissions'', PyNone), (''communication_disabled_until'', PyNone),
        (''hoisted_role'', PyNone), (''flags'', MISSING)]) ''_avatar'' = Inr (PyStr [])
   \<and> PyStr [] \<noteq> PyNone
   \<and> Member_avatar (PyObj ''Member'' (PyClient 7) []
       [(''user'', PyObj ''User'' (PyClient 7) []
            [(''id'', MISSING), (''username'', MISSING), (''avatar'', PyStr ''abc123'')]),
        (''nick'', PyNone), (''_avatar'', PyStr []), (''roles'', MISSING),
        (''joined_at'', MISSING), (''premium_since'', PyNone), (''deaf'', MISSING),
        (''mute'', MISSING), (''is_pending'', PyNone), (''pending'', PyNone),
        (''permissions'', PyNone), (''communication_disabled_until'', PyNone),
        (''hoisted_role'', PyNone), (''flags'', MISSING)]) = Inr (PyStr ''abc123'')"
  by (simp add: Member_init_def fromJSON_def Member_schema_def Member_fields_def
      User_fields_def empty_avatar_raw_def Member_avatar_def getattr_default_def)

subsection \<open>Relations of an invite\<close>

lemma cached_user_falsy:
  "getattr self attr = Inr ident \<Longrightarrow> \<not> truthy ident \<Longrightarrow> cached_user caches self attr = Inr PyNone"
  by (simp add: cached_user_def)

lemma cached_user_attached:
  "getattr self ''_client'' = Inr (PyClient c) \<Longrightarrow> getattr self attr = Inr ident \<Longrightarrow>
   cached_user caches self attr = Inr (if truthy ident then get_user (caches c) ident else PyNone)"
  by (simp add: cached_user_def client_attr_def)

lemma cached_user_detached:
  "getattr self ''_client'' = Inr PyNone \<Longrightarrow> getattr self attr = Inr ident \<Longrightarrow> truthy ident \<Longrightarrow>
   cached_user caches self attr = Inl (no_attribute PyNone ''cache'')"
  by (simp add: cached_user_def client_attr_def)

text \<open>
  Claim C8. The properties \<open>channel\<close>, \<open>inviter\<close> and \<open>target_user\<close> of an invite are
  functions of the instance and of the caches alone: they take no transport and no
  network state. The claim, that each returns None rather than raising for every invite,
  holds for an invite with a client and fails for an invite without one (the
  counterexample below). On an invite with a client, \<open>channel\<close> returns the answer of the
  cache's \<open>get_channel\<close> for the stored identifier, \<open>inviter\<close> and \<open>target_user\<close> return
  the answer of \<open>get_user\<close> for a stored identifier that is set and None for one that is
  None or falsy; so each returns None, and does not raise, whenever the cache answers
  None. With or without a client, \<open>inviter\<close> and \<open>target_user\<close> return None for an
  identifier that is None or falsy. On an invite whose client is None, \<open>channel\<close> raises
  the AttributeError of \<open>None.cache\<close> whatever the stored identifier is, and \<open>inviter\<close>
  and \<open>target_user\<close> raise it when the identifier is set.
\<close>

theorem Invite_relations_through_cache:
  "(\<forall>c ident. getattr self ''_client'' = Inr (PyClient c) \<and> getattr self ''_channel_id'' = Inr ident \<longrightarrow>
        Invite_channel caches self = Inr (get_channel (caches c) ident)
      \<and> (get_channel (caches c) ident = PyNone \<longrightarrow> Invite_channel caches self = Inr PyNone))
   \<and> (\<forall>c ident. getattr self ''_client'' = Inr (PyClient c) \<and> getattr self ''_inviter_id'' = Inr ident \<longrightarrow>
        Invite_inviter caches self
          = Inr (if truthy ident then get_user (caches c) ident else PyNone)
      \<and> (get_user (caches c) ident = PyNone \<longrightarrow> Invite_inviter caches self = Inr PyNone))
   \<and> (\<forall>c ident. getattr self ''_client'' = Inr (PyClient c) \<and> getattr self ''_target_user_id'' = Inr ident \<longrightarrow>
        Invite_target_user caches self
          = Inr (if truthy ident then get_user (caches c) ident else PyNone)
      \<and> (get_user (caches c) ident = PyNone \<longrightarrow> Invite_target_user caches self = Inr PyNone))
   \<and> (\<forall>ident. getattr self ''_inviter_id'' = Inr ident \<and> \<not> truthy ident \<longrightarrow>
        Invite_inviter caches self = Inr PyNone)
   \<and> (\<forall>ident. getattr self ''_target_user_id'' = Inr ident \<and> \<not> truthy ident \<longrightarrow>
        Invite_target_user caches self = Inr PyNone)
   \<and> (getattr self ''_client'' = Inr PyNone \<longrightarrow>
        Invite_channel caches self = Inl (no_attribute PyNone ''cache'')
      \<and> (\<forall>ident. getattr self ''_inviter_id'' = Inr ident \<and> truthy ident \<longrightarrow>
            Invite_inviter caches self = Inl (no_attribute PyNone ''cache''))
      \<and> (\<forall>ident. getattr self ''_target_user_id'' = Inr ident \<and> truthy ident \<longrightarrow>
            Invite_target_user caches self = Inl (no_attribute PyNone ''cache'')))"
proof -
  have ch: "Invite_channel caches self = Inr (get_channel (caches c) ident)"
    if "getattr self ''_client'' = Inr (PyClient c)" "getattr self ''_channel_id'' = Inr ident"
    for c ident
    using that by (simp add: Invite_channel_def client_attr_def)
  have chd: "Invite_channel caches self = Inl (no_attribute PyNone ''cache'')"
    if "getattr self ''_client'' = Inr PyNone"
    using that by (simp add: Invite_channel_def client_attr_def)
  have p1: "\<forall>c ident. getattr self ''_client'' = Inr (PyClient c) \<and> getattr self ''_channel_id'' = Inr ident \<longrightarrow>
        Invite_channel caches self = Inr (get_channel (caches c) ident)
      \<and> (get_channel (caches c) ident = PyNone \<longrightarrow> Invite_channel caches self = Inr PyNone)"
    using ch by simp
  have p2: "\<forall>c ident. getattr self ''_client'' = Inr (PyClient c) \<and> getattr self attr = Inr ident \<longrightarrow>
        cached_user caches self attr
          = Inr (if truthy ident then get_user (caches c) ident else PyNone)
      \<and> (get_user (caches c) ident = PyNone \<longrightarrow> cached_user caches self attr = Inr PyNone)" for attr
    using cached_user_attached [where self = self and caches = caches and attr = attr] by simp
  have p3: "\<forall>ident. getattr self attr = Inr ident \<and> \<not> truthy ident \<longrightarrow>
        cached_user caches self attr = Inr PyNone" for attr
    using cached_user_falsy [where self = self and caches = caches and attr = attr] by simp
  have p4: "getattr self ''_client'' = Inr PyNone \<longrightarrow>
      (\<forall>ident. getattr self attr = Inr ident \<and> truthy ident \<longrightarrow>
            cached_user caches self attr = Inl (no_attribute PyNone ''cache''))" for attr
    using cached_user_detached [where self = self and caches = caches and attr = attr] by simp
  show ?thesis
    unfolding Invite_inviter_def Invite_target_user_def
    using p1 p2 [of "''_inviter_id''"] p2 [of "''_target_user_id''"]
      p3 [of "''_inviter_id''"] p3 [of "''_target_user_id''"]
      p4 [of "''_inviter_id''"] p4 [of "''_target_user_id''"] chd
    by blast
qed

theorem Invite_relations_through_cache_witness:
  "Invite_channel sample_caches attached_invite
     = Inr (PyObj ''Channel'' (PyClient 7) [] [(''id'', PyInt 42)])
   \<and> Invite_inviter sample_caches attached_invite = Inr PyNone
   \<and> Invite_target_user sample_caches attached_invite = Inr PyNone
   \<and> Invite_inviter sample_caches blank_invite = Inr PyNone
   \<and> Invite_channel sample_caches detached_invite
       = Inl (AttributeError ''NoneType object has no attribute cache'')"
proof -
  have cl: "getattr attached_invite ''_client'' = Inr (PyClient 7)"
    by (simp add: attached_invite_def)
  have ch: "getattr attached_invite ''_channel_id'' = Inr (PyInt 42)"
    and iv: "getattr attached_invite ''_inviter_id'' = Inr PyNone \<and> \<not> truthy PyNone"
    and tu: "getattr attached_invite ''_target_user_id'' = Inr (PyInt 5)
             \<and> get_user (sample_caches 7) (PyInt 5) = PyNone"
    and bl: "getattr blank_invite ''_inviter_id'' = Inr PyNone"
    and dc: "getattr detached_invite ''_client'' = Inr PyNone"
    by (simp_all add: attached_invite_def blank_invite_def detached_invite_def sample_caches_def)
  note t = Invite_relations_through_cache [of attached_invite sample_caches]
  note b = Invite_relations_through_cache [of blank_invite sample_caches]
  note d = Invite_relations_through_cache [of detached_invite sample_caches]
  have "Invite_channel sample_caches attached_invite
          = Inr (get_channel (sample_caches 7) (PyInt 42))"
    using t [THEN conjunct1] cl ch by blast
  moreover have "Invite_inviter sample_caches attached_invite = Inr PyNone"
    using t [THEN conjunct2, THEN conjunct2, THEN conjunct2, THEN conjunct1] iv by blast
  moreover have "Invite_target_user sample_caches attached_invite = Inr PyNone"
    using t [THEN conjunct2, THEN conjunct2, THEN conjunct1] cl tu by blast
  moreover have "Invite_inviter sample_caches blank_invite = Inr PyNone"
    using b [THEN conjunct2, THEN conjunct2, THEN conjunct2, THEN conjunct1] bl iv by blast
  moreover have "Invite_channel sample_caches detached_invite = Inl (no_attribute PyNone ''cache'')"
    using d dc by blast
  ultimately show ?thesis
    by (simp add: sample_caches_def no_attribute_def)
qed

theorem Invite_relations_through_cache_counterexample:
  "getattr blank_invite ''_channel_id'' = Inr PyNone
   \<and> Invite_channel sample_caches blank_invite
       = Inl (AttributeError ''NoneType object has no attribute cache'')"
  by (simp add: Invite_channel_def blank_invite_def client_attr_def no_attribute_def)

subsection \<open>Computed properties\<close>

text \<open>
  Claim C9. \<open>Member.name\<close> is a function of the instance's attributes alone (it takes no
  transport and no cache): when \<open>nick\<close> is a non-empty string it is the nickname; when
  \<open>nick\<close> is None or the empty string it is the nested user's \<open>username\<close>, and None when
  there is no user.
\<close>

theorem Member_name_nick_or_username:
  assumes "getattr self ''nick'' = Inr nick"
    and "getattr self ''user'' = Inr user"
  shows "(truthy nick \<longrightarrow> Member_name self = Inr nick)
       \<and> (\<forall>s. nick = PyStr s \<and> s \<noteq> [] \<longrightarrow> Member_name self = Inr (PyStr s))
       \<and> (nick = PyNone \<or> nick = PyStr [] \<longrightarrow>
            Member_name self =
              (if truthy user then getattr user ''username'' else Inr PyNone))
       \<and> (\<not> truthy nick \<and> user = PyNone \<longrightarrow> Member_name self = Inr PyNone)"
  using assms by (auto simp: Member_name_def)

theorem Member_name_nick_or_username_witness:
  "Member_name (PyObj ''Member'' PyNone []
       [(''user'', PyObj ''User'' PyNone [] [(''username'', PyStr ''global'')]),
        (''nick'', PyStr ''guildnick'')]) = Inr (PyStr ''guildnick'')
   \<and> Member_name (PyObj ''Member'' PyNone []
       [(''user'', PyObj ''User'' PyNone [] [(''username'', PyStr ''global'')]),
        (''nick'', PyStr [])]) = Inr (PyStr ''global'')
   \<and> Member_name (PyObj ''Member'' PyNone []
       [(''user'', PyObj ''User'' PyNone [] [(''username'', PyStr ''global'')]),
        (''nick'', PyNone)]) = Inr (PyStr ''global'')
   \<and> Member_name (PyObj ''Member'' PyNone []
       [(''user'', PyNone), (''nick'', PyNone)]) = Inr PyNone"
proof -
  let ?u = "PyObj ''User'' PyNone [] [(''username'', PyStr ''global'')]"
  have a: "Member_name (PyObj ''Member'' PyNone [] [(''user'', ?u), (''nick'', PyStr ''guildnick'')])
             = Inr (PyStr ''guildnick'')"
    using Member_name_nick_or_username
      [of "PyObj ''Member'' PyNone [] [(''user'', ?u), (''nick'', PyStr ''guildnick'')]"
          "PyStr ''guildnick''" ?u]
    by simp
  have b: "Member_name (PyObj ''Member'' PyNone [] [(''user'', ?u), (''nick'', PyStr [])])
             = Inr (PyStr ''global'')"
    using Member_name_nick_or_username
      [of "PyObj ''Member'' PyNone [] [(''user'', ?u), (''nick'', PyStr [])]" "PyStr []" ?u]
    by simp
  have c: "Member_name (PyObj ''Member'' PyNone [] [(''user'', ?u), (''nick'', PyNone)])
             = Inr (PyStr ''global'')"
    using Member_name_nick_or_username
      [of "PyObj ''Member'' PyNone [] [(''user'', ?u), (''nick'', PyNone)]" PyNone ?u]
    by simp
  have d: "Member_name (PyObj ''Member'' PyNone [] [(''user'', PyNone), (''nick'', PyNone)])
             = Inr PyNone"
    using Member_name_nick_or_username
      [of "PyObj ''Member'' PyNone [] [(''user'', PyNone), (''nick'', PyNone)]" PyNone PyNone]
    by simp
  from a b c d show ?thesis by simp
qed

end
